theory Spec2Isabelle
  imports Main
begin

section \<open>JavaScript values\<close>

text \<open>
  The request fields \<open>provider\<close>, \<open>width\<close> and \<open>height\<close> arrive as untyped JSON
  (\<open>request.params.arguments as unknown as ImagePlaceholderParams\<close>), and the validator's
  helpers take \<open>unknown\<close>. They are modelled as the values below.

  A number is an integer or \<open>NaN\<close>; fractions and infinities are not represented (at every
  guard of the code they take the branch \<open>NaN\<close> takes, since \<open>Number.isInteger\<close> is false
  for them). An integer in the safe range, up to \<open>2^53 - 1\<close> in absolute value, is
  \<open>Integer i\<close>; a template literal prints it in decimal. A number whose value is an integer
  beyond the safe range is \<open>Large v s\<close>: its value \<open>v\<close> and the text \<open>s\<close> that JavaScript
  prints for it (the shortest digits that read back as the same double, in exponent form from
  \<open>10^21\<close>, such as \<open>1e+21\<close>). The model takes that text as part of the value instead of
  computing it. \<open>Integer i\<close> with \<open>i\<close> outside the safe range and \<open>Large v s\<close> with
  \<open>v\<close> inside it stand for no number; \<open>isInteger\<close> is false for them, so they pass no
  guard of the code.

  A string is held as the UTF-8 bytes of its code points. A JavaScript string may hold a
  surrogate that is not part of a pair; it is held as the three bytes of its own code point
  (\<open>ED\<close>, then a byte from \<open>A0\<close> to \<open>BF\<close>, then one more), which no other text has.
\<close>

datatype number = Integer int | Large int string | NaN

text \<open>\<open>Number.isSafeInteger\<close> on an integer value: at most \<open>2^53 - 1\<close> in absolute value.\<close>

definition isSafeInteger :: "int \<Rightarrow> bool" where
  "isSafeInteger i = (- 9007199254740991 \<le> i \<and> i \<le> 9007199254740991)"

datatype jsvalue = Undefined | Null | Num number | Str string

fun isInteger :: "number \<Rightarrow> bool" where
  "isInteger (Integer i) = isSafeInteger i"
| "isInteger (Large v s) = (\<not> isSafeInteger v)"
| "isInteger NaN = False"

text \<open>\<open>x < k\<close> and \<open>x > k\<close> on numbers: every comparison with \<open>NaN\<close> is false.\<close>

fun num_less :: "number \<Rightarrow> int \<Rightarrow> bool" where
  "num_less (Integer i) k = (i < k)"
| "num_less (Large v s) k = (v < k)"
| "num_less NaN k = False"

fun num_greater :: "number \<Rightarrow> int \<Rightarrow> bool" where
  "num_greater (Integer i) k = (i > k)"
| "num_greater (Large v s) k = (v > k)"
| "num_greater NaN k = False"

fun num_truthy :: "number \<Rightarrow> bool" where
  "num_truthy (Integer i) = (i \<noteq> 0)"
| "num_truthy (Large v s) = (v \<noteq> 0)"
| "num_truthy NaN = False"

fun digitsOf :: "nat \<Rightarrow> string" where
  "digitsOf n =
     (if n < 10 then [''0123456789'' ! n]
      else digitsOf (n div 10) @ [''0123456789'' ! (n mod 10)])"

declare digitsOf.simps [simp del]

fun num_toString :: "number \<Rightarrow> string" where
  "num_toString (Integer i) =
     (if i < 0 then CHR ''-'' # digitsOf (nat (- i)) else digitsOf (nat i))"
| "num_toString (Large v s) = s"
| "num_toString NaN = ''NaN''"

text \<open>\<open>Number.isInteger(v)\<close>, truthiness, \<open>a !== b\<close> and \<open>`${v}`\<close> on values.\<close>

fun Number_isInteger :: "jsvalue \<Rightarrow> bool" where
  "Number_isInteger (Num n) = isInteger n"
| "Number_isInteger v = False"

fun truthy :: "jsvalue \<Rightarrow> bool" where
  "truthy Undefined = False"
| "truthy Null = False"
| "truthy (Num n) = num_truthy n"
| "truthy (Str s) = (s \<noteq> [])"

fun strict_neq :: "jsvalue \<Rightarrow> jsvalue \<Rightarrow> bool" where
  "strict_neq (Num NaN) b = True"
| "strict_neq a (Num NaN) = True"
| "strict_neq a b = (a \<noteq> b)"

fun toString :: "jsvalue \<Rightarrow> string" where
  "toString Undefined = ''undefined''"
| "toString Null = ''null''"
| "toString (Num n) = num_toString n"
| "toString (Str s) = s"

text \<open>Comparison of a value that passed \<open>Number.isInteger\<close> with a bound.\<close>

fun js_less :: "jsvalue \<Rightarrow> int \<Rightarrow> bool" where
  "js_less (Num n) k = num_less n k"
| "js_less v k = False"

fun js_greater :: "jsvalue \<Rightarrow> int \<Rightarrow> bool" where
  "js_greater (Num n) k = num_greater n k"
| "js_greater v k = False"

text \<open>\<open>a < b\<close> and \<open>a > b\<close> between a value and a number held in the constraint set.\<close>

fun num_value :: "number \<Rightarrow> int option" where
  "num_value (Integer i) = Some i"
| "num_value (Large v s) = Some v"
| "num_value NaN = None"

fun num_less_than :: "number \<Rightarrow> number \<Rightarrow> bool" where
  "num_less_than a b =
     (case num_value a of
        None \<Rightarrow> False
      | Some x \<Rightarrow> (case num_value b of None \<Rightarrow> False | Some y \<Rightarrow> x < y))"

fun js_less_than :: "jsvalue \<Rightarrow> number \<Rightarrow> bool" where
  "js_less_than (Num n) b = num_less_than n b"
| "js_less_than v b = False"

fun js_greater_than :: "jsvalue \<Rightarrow> number \<Rightarrow> bool" where
  "js_greater_than (Num n) b = num_less_than b n"
| "js_greater_than v b = False"

text \<open>
  An optional string property: \<open>None\<close> is \<open>undefined\<close>. \<open>present\<close> is its truthiness
  (\<open>undefined\<close> and the empty string are falsy), \<open>str\<close> its text in a template literal.
\<close>

fun present :: "string option \<Rightarrow> bool" where
  "present None = False"
| "present (Some s) = (s \<noteq> [])"

fun str :: "string option \<Rightarrow> string" where
  "str None = ''undefined''"
| "str (Some s) = s"

text \<open>The same for an optional number property.\<close>

fun num_present :: "number option \<Rightarrow> bool" where
  "num_present None = False"
| "num_present (Some n) = num_truthy n"

fun num_str :: "number option \<Rightarrow> string" where
  "num_str None = ''undefined''"
| "num_str (Some n) = num_toString n"

text \<open>\<open>a || d\<close> on an optional string.\<close>

fun str_or :: "string option \<Rightarrow> string \<Rightarrow> string" where
  "str_or None d = d"
| "str_or (Some s) d = (if s = [] then d else s)"

text \<open>\<open>parts.join(sep)\<close>.\<close>

fun join :: "string \<Rightarrow> string list \<Rightarrow> string" where
  "join sep [] = []"
| "join sep [x] = x"
| "join sep (x # y # ys) = x @ sep @ join sep (y # ys)"

text \<open>\<open>s.replace(c, t)\<close> with a string pattern: the first occurrence only.\<close>

fun replace_first :: "char \<Rightarrow> string \<Rightarrow> string \<Rightarrow> string" where
  "replace_first c t [] = []"
| "replace_first c t (x # xs) = (if x = c then t @ xs else x # replace_first c t xs)"

text \<open>\<open>s.replace(/c/g, t)\<close>: every occurrence.\<close>

fun replace_all :: "char \<Rightarrow> string \<Rightarrow> string \<Rightarrow> string" where
  "replace_all c t [] = []"
| "replace_all c t (x # xs) = (if x = c then t @ replace_all c t xs else x # replace_all c t xs)"

definition upperLetters :: string where
  "upperLetters = ''ABCDEFGHIJKLMNOPQRSTUVWXYZ''"

definition lowerLetters :: string where
  "lowerLetters = ''abcdefghijklmnopqrstuvwxyz''"

definition decimalDigits :: string where
  "decimalDigits = ''0123456789''"

fun lowerChar :: "char \<Rightarrow> char" where
  "lowerChar c = (case map_of (zip upperLetters lowerLetters) c of Some l \<Rightarrow> l | None \<Rightarrow> c)"

text \<open>
  \<open>s.toLowerCase()\<close>, as far as the code uses it, which is to compare the result with names
  made of the letters a to z. The letters A to Z map to a to z, and the Kelvin sign
  (U+212A, the bytes \<open>E2 84 AA\<close>) maps to \<open>k\<close>. Every other character outside ASCII is
  left as it is: its lower-case form in JavaScript has a character outside ASCII as well, so
  the result is such a name in the model exactly when it is in JavaScript.
\<close>

definition kelvinSign :: string where
  "kelvinSign = [CHR 0xE2, CHR 0x84, CHR 0xAA]"

fun toLowerCase :: "string \<Rightarrow> string" where
  "toLowerCase [] = []"
| "toLowerCase (c # cs) =
     (if take 3 (c # cs) = kelvinSign then CHR ''k'' # toLowerCase (drop 2 cs)
      else lowerChar c # toLowerCase cs)"

text \<open>
  \<open>s.trim()\<close> strips the white space and line terminators of ECMAScript from both ends:
  U+0009 to U+000D, U+0020, U+00A0, U+1680, U+2000 to U+200A, U+2028, U+2029, U+202F, U+205F,
  U+3000 and U+FEFF, here in UTF-8.
\<close>

definition whiteSpace :: "string list" where
  "whiteSpace =
     [[CHR 0x09], [CHR 0x0A], [CHR 0x0B], [CHR 0x0C], [CHR 0x0D], [CHR 0x20],
      [CHR 0xC2, CHR 0xA0], [CHR 0xE1, CHR 0x9A, CHR 0x80],
      [CHR 0xE2, CHR 0x80, CHR 0x80], [CHR 0xE2, CHR 0x80, CHR 0x81],
      [CHR 0xE2, CHR 0x80, CHR 0x82], [CHR 0xE2, CHR 0x80, CHR 0x83],
      [CHR 0xE2, CHR 0x80, CHR 0x84], [CHR 0xE2, CHR 0x80, CHR 0x85],
      [CHR 0xE2, CHR 0x80, CHR 0x86], [CHR 0xE2, CHR 0x80, CHR 0x87],
      [CHR 0xE2, CHR 0x80, CHR 0x88], [CHR 0xE2, CHR 0x80, CHR 0x89],
      [CHR 0xE2, CHR 0x80, CHR 0x8A], [CHR 0xE2, CHR 0x80, CHR 0xA8],
      [CHR 0xE2, CHR 0x80, CHR 0xA9], [CHR 0xE2, CHR 0x80, CHR 0xAF],
      [CHR 0xE2, CHR 0x81, CHR 0x9F], [CHR 0xE3, CHR 0x80, CHR 0x80],
      [CHR 0xEF, CHR 0xBB, CHR 0xBF]]"

text \<open>Strip from the front of \<open>s\<close>, as long as one is there, a sequence of the list.\<close>

function stripLeading :: "string list \<Rightarrow> string \<Rightarrow> string" where
  "stripLeading ws s =
     (case List.find (\<lambda>w. w \<noteq> [] \<and> take (length w) s = w) ws of
        None \<Rightarrow> s
      | Some w \<Rightarrow> stripLeading ws (drop (length w) s))"
  by pat_completeness auto
termination
proof (relation "measure (\<lambda>(ws, s). length s)")
  show "wf (measure (\<lambda>(ws, s). length s))" by simp
next
  fix ws :: "string list" and s w :: string
  assume "List.find (\<lambda>w. w \<noteq> [] \<and> take (length w) s = w) ws = Some w"
  then have w: "w \<noteq> []" and t: "take (length w) s = w"
    by (auto simp: find_Some_iff)
  from w have pos: "0 < length w" by simp
  have "length (take (length w) s) \<le> length s" by simp
  with t have le: "length w \<le> length s" by simp
  from pos le have "length s - length w < length s" by arith
  then show "((ws, drop (length w) s), (ws, s)) \<in> measure (\<lambda>(ws, s). length s)"
    by simp
qed

declare stripLeading.simps [simp del]

definition trim :: "string \<Rightarrow> string" where
  "trim s = rev (stripLeading (map rev whiteSpace) (rev (stripLeading whiteSpace s)))"

text \<open>
  \<open>encodeURIComponent\<close>: letters, digits and \<open>- _ . ! ~ * ' ( )\<close> stay, every other byte
  becomes \<open>%XX\<close> in upper-case hexadecimal.
\<close>

fun isUnreserved :: "char \<Rightarrow> bool" where
  "isUnreserved c =
     (c \<in> set upperLetters \<or> c \<in> set lowerLetters \<or> c \<in> set decimalDigits \<or>
      c \<in> set [CHR ''-'', CHR ''_'', CHR ''.'', CHR ''!'', CHR ''~'', CHR ''*'', CHR 0x27,
                 CHR ''('', CHR '')''])"

fun percentEncode :: "char \<Rightarrow> string" where
  "percentEncode c =
     (if isUnreserved c then [c]
      else [CHR ''%'', ''0123456789ABCDEF'' ! ((of_char c :: nat) div 16),
            ''0123456789ABCDEF'' ! ((of_char c :: nat) mod 16)])"

text \<open>
  \<open>encodeURIComponent\<close> throws \<open>URIError\<close> on a string with an unpaired surrogate; that
  is \<open>None\<close> here.
\<close>

fun hasLoneSurrogate :: "string \<Rightarrow> bool" where
  "hasLoneSurrogate (a # b # cs) =
     ((a = CHR 0xED \<and> 160 \<le> (of_char b :: nat) \<and> (of_char b :: nat) \<le> 191) \<or>
      hasLoneSurrogate (b # cs))"
| "hasLoneSurrogate cs = False"

definition encodeURIComponent :: "string \<Rightarrow> string option" where
  "encodeURIComponent s =
     (if hasLoneSurrogate s then None else Some (concat (map percentEncode s)))"

section \<open>Types (types/index.ts) and errors\<close>

record PicsumOptions =
  format :: "string option"
  imageId :: "number option"
  seed :: "string option"
  grayscale :: "bool option"
  blur :: "number option"
  random :: "number option"

record PlaceholdOptions =
  format :: "string option"
  backgroundColor :: "string option"
  textColor :: "string option"
  customText :: "string option"
  font :: "string option"
  retina :: "string option"

record ImagePlaceholderParams =
  provider :: jsvalue
  width :: jsvalue
  height :: jsvalue
  placeholdOptions :: "PlaceholdOptions option"
  picsumOptions :: "PicsumOptions option"

record Dimensions =
  dim_width :: jsvalue
  dim_height :: jsvalue

record ImagePlaceholderResult =
  url :: string
  res_provider :: jsvalue
  dimensions :: Dimensions
  appliedPlaceholdOptions :: "PlaceholdOptions option"
  appliedPicsumOptions :: "PicsumOptions option"

record ValidationConstraints =
  minWidth :: number
  maxWidth :: number
  minHeight :: number
  maxHeight :: number
  supportedProviders :: "string list"

text \<open>
  The second argument of \<open>new ValidationError(field, value, constraints)\<close>: the offending
  value, which is a request field, a string built for the message, or an options object.
\<close>

datatype offending =
  Val jsvalue
| NoParams
| PlaceholdObject PlaceholdOptions
| PicsumObject PicsumOptions

text \<open>
  \<open>ValidationError(field, value, constraints)\<close> and
  \<open>ProviderError(provider, message, context)\<close>; of the context only the list
  \<open>supportedProviders\<close> is kept (empty when the call passes no context).
  \<open>TypeError\<close> is what reading a property of \<open>null\<close> or \<open>undefined\<close> throws,
  \<open>URIError\<close> what \<open>encodeURIComponent\<close> throws.
\<close>

datatype error =
  ValidationError string offending string
| ProviderError string string "string list"
| TypeError
| URIError

text \<open>The first check that fails decides the error; with none, validation returns true.\<close>

fun first_error :: "error option list \<Rightarrow> error + bool" where
  "first_error [] = Inr True"
| "first_error (None # cs) = first_error cs"
| "first_error (Some e # cs) = Inl e"

section \<open>BaseUrlBuilder\<close>

text \<open>\<open>validateDimensions(width, height)\<close>: the builders' own bounds, 10 to 4000.\<close>

definition validateDimensions :: "jsvalue \<Rightarrow> jsvalue \<Rightarrow> error + unit" where
  "validateDimensions w h =
     (if (if Number_isInteger w then js_less w 10 \<or> js_greater w 4000 else True)
      then Inl (ValidationError ''width'' (Val w) ''Width must be an integer between 10 and 4000'')
      else if h \<noteq> Undefined then
        (if (if Number_isInteger h then js_less h 10 \<or> js_greater h 4000 else True)
         then Inl (ValidationError ''height'' (Val h)
                     ''Height must be an integer between 10 and 4000'')
         else Inr ())
      else Inr ())"

fun isHexDigit :: "char \<Rightarrow> bool" where
  "isHexDigit c =
     (c \<in> set ''ABCDEF'' \<or> c \<in> set ''abcdef'' \<or> c \<in> set decimalDigits)"

text \<open>\<open>/^#?([A-Fa-f0-9]{6}|[A-Fa-f0-9]{3})$/.test(color)\<close>\<close>

fun allHex :: "string \<Rightarrow> bool" where
  "allHex s = ((length s = 6 \<or> length s = 3) \<and> list_all isHexDigit s)"

fun isValidHexColor :: "string \<Rightarrow> bool" where
  "isValidHexColor [] = False"
| "isValidHexColor (c # cs) = (if c = CHR ''#'' then allHex cs else allHex (c # cs))"

definition cssColors :: "string list" where
  "cssColors =
     [''black'', ''white'', ''red'', ''green'', ''blue'', ''yellow'', ''orange'', ''purple'',
      ''pink'', ''brown'', ''gray'', ''grey'', ''cyan'', ''magenta'', ''lime'', ''maroon'',
      ''navy'', ''olive'', ''silver'', ''teal'', ''aqua'', ''fuchsia'', ''transparent'']"

definition isValidCssColor :: "string \<Rightarrow> bool" where
  "isValidCssColor color = (toLowerCase color \<in> set cssColors)"

definition isValidColor :: "string \<Rightarrow> bool" where
  "isValidColor color =
     (color = ''transparent'' \<or> isValidHexColor color \<or> isValidCssColor color)"

text \<open>\<open>text.replace(/ /g, '+').replace(/\n/g, '\\n')\<close>: a newline becomes backslash, n.\<close>

definition encodeText :: "string \<Rightarrow> string" where
  "encodeText t = replace_all (CHR 0x0A) [CHR 0x5C, CHR ''n''] (replace_all (CHR '' '') ''+'' t)"

section \<open>PlaceholdUrlBuilder\<close>

definition supportedFormats :: "string list" where
  "supportedFormats = [''svg'', ''png'', ''jpeg'', ''gif'', ''webp'', ''avif'']"

definition supportedFonts :: "string list" where
  "supportedFonts =
     [''lato'', ''lora'', ''montserrat'', ''noto-sans'', ''open-sans'', ''oswald'',
      ''playfair-display'', ''poppins'', ''pt-sans'', ''raleway'', ''roboto'',
      ''source-sans-pro'']"

definition retinaFormats :: "string list" where
  "retinaFormats = [''png'', ''jpeg'', ''gif'', ''webp'', ''avif'']"

text \<open>The blocks of \<open>validateOptions\<close>, in the order of the source.\<close>

definition check_format :: "PlaceholdOptions \<Rightarrow> error option" where
  "check_format options =
     (if present (format options) \<and> str (format options) \<notin> set supportedFormats
      then Some (ValidationError ''format'' (Val (Str (str (format options))))
                   (''Format must be one of: '' @ join '', '' supportedFormats))
      else None)"

definition check_retina_format :: "PlaceholdOptions \<Rightarrow> error option" where
  "check_retina_format options =
     (if present (retina options) \<and> present (format options) \<and>
         str (format options) \<notin> set retinaFormats
      then Some (ValidationError ''retina''
                   (Val (Str (str (retina options) @ '' with '' @ str (format options))))
                   (''Retina scaling is only supported for: '' @ join '', '' retinaFormats))
      else None)"

definition check_colors :: "PlaceholdOptions \<Rightarrow> error option" where
  "check_colors options =
     (if present (backgroundColor options) \<or> present (textColor options) then
        (if \<not> (present (backgroundColor options) \<and> present (textColor options))
         then Some (ValidationError ''colors''
                      (Val (Str (''bg: '' @ str_or (backgroundColor options) ''missing'' @
                                 '', text: '' @ str_or (textColor options) ''missing'')))
                      ''Both backgroundColor and textColor must be specified together'')
         else if \<not> isValidColor (str (backgroundColor options))
         then Some (ValidationError ''backgroundColor'' (Val (Str (str (backgroundColor options))))
                      (''Invalid color format (use hex codes, CSS color names, or '' @ [CHR 0x22] @
                       ''transparent'' @ [CHR 0x22] @ '')''))
         else if \<not> isValidColor (str (textColor options))
         then Some (ValidationError ''textColor'' (Val (Str (str (textColor options))))
                      ''Invalid color format (use hex codes or CSS color names)'')
         else None)
      else None)"

definition check_font :: "PlaceholdOptions \<Rightarrow> error option" where
  "check_font options =
     (if present (font options) \<and> str (font options) \<notin> set supportedFonts
      then Some (ValidationError ''font'' (Val (Str (str (font options))))
                   (''Font must be one of: '' @ join '', '' supportedFonts))
      else None)"

definition check_retina :: "PlaceholdOptions \<Rightarrow> error option" where
  "check_retina options =
     (if present (retina options) \<and> str (retina options) \<notin> set [''2x'', ''3x'']
      then Some (ValidationError ''retina'' (Val (Str (str (retina options))))
                   (''Retina must be '' @ [CHR 0x22] @ ''2x'' @ [CHR 0x22] @ '' or '' @ [CHR 0x22] @
                    ''3x'' @ [CHR 0x22]))
      else None)"

definition placehold_validateOptions :: "PlaceholdOptions option \<Rightarrow> error + bool" where
  "placehold_validateOptions opts =
     (case opts of
        None \<Rightarrow> Inr True
      | Some options \<Rightarrow>
          first_error [check_format options, check_retina_format options, check_colors options,
                       check_font options, check_retina options])"

text \<open>The components of the URL, in the order \<open>buildUrl\<close> appends them.\<close>

definition placehold_size :: "jsvalue \<Rightarrow> jsvalue \<Rightarrow> string" where
  "placehold_size w h =
     ''/'' @ toString w @ (if truthy h \<and> strict_neq h w then ''x'' @ toString h else [])"

definition placehold_retina :: "PlaceholdOptions option \<Rightarrow> string" where
  "placehold_retina opts =
     (case opts of
        None \<Rightarrow> []
      | Some options \<Rightarrow>
          if present (retina options) then ''@'' @ str (retina options) else [])"

definition placehold_colors :: "PlaceholdOptions option \<Rightarrow> string" where
  "placehold_colors opts =
     (case opts of
        None \<Rightarrow> []
      | Some options \<Rightarrow>
          if present (backgroundColor options) \<and> present (textColor options)
          then ''/'' @ str (backgroundColor options) @ ''/'' @ str (textColor options)
          else [])"

definition placehold_format :: "PlaceholdOptions option \<Rightarrow> string" where
  "placehold_format opts =
     (case opts of
        None \<Rightarrow> []
      | Some options \<Rightarrow>
          if present (format options) \<and> str (format options) \<noteq> ''svg''
          then ''.'' @ str (format options)
          else [])"

definition placehold_queryParams :: "PlaceholdOptions option \<Rightarrow> string list" where
  "placehold_queryParams opts =
     (case opts of
        None \<Rightarrow> []
      | Some options \<Rightarrow>
          (if present (customText options)
           then [''text='' @ encodeText (str (customText options))] else []) @
          (if present (font options) \<and> str (font options) \<noteq> ''lato''
           then [''font='' @ replace_first (CHR ''-'') ''+'' (str (font options))] else []))"

definition queryString :: "string list \<Rightarrow> string" where
  "queryString queryParams =
     (if length queryParams > 0 then ''?'' @ join ''&'' queryParams else [])"

text \<open>
  \<open>PlaceholdUrlBuilder.buildUrl(width, height, options)\<close> of a builder with the given
  \<open>baseUrl\<close>: the URL it returns, or the error it throws. The calls to the logger,
  here and in the other classes, write records and return nothing the code reads; they are
  left out.
\<close>

definition placehold_buildUrl ::
  "string \<Rightarrow> jsvalue \<Rightarrow> jsvalue \<Rightarrow> PlaceholdOptions option \<Rightarrow> error + string" where
  "placehold_buildUrl baseUrl w h opts =
     (case validateDimensions w h of
        Inl e \<Rightarrow> Inl e
      | Inr _ \<Rightarrow>
          (case (case opts of None \<Rightarrow> Inr True | Some _ \<Rightarrow> placehold_validateOptions opts) of
             Inl e \<Rightarrow> Inl e
           | Inr _ \<Rightarrow>
               Inr (baseUrl @ placehold_size w h @ placehold_retina opts @ placehold_colors opts @
                    placehold_format opts @ queryString (placehold_queryParams opts))))"

section \<open>PicsumUrlBuilder\<close>

definition picsum_supportedFormats :: "string list" where
  "picsum_supportedFormats = [''jpg'', ''webp'']"

definition check_picsum_format :: "PicsumOptions \<Rightarrow> error option" where
  "check_picsum_format options =
     (if present (PicsumOptions.format options) \<and>
         str (PicsumOptions.format options) \<notin> set picsum_supportedFormats
      then Some (ValidationError ''format'' (Val (Str (str (PicsumOptions.format options))))
                   (''Format must be one of: '' @ join '', '' picsum_supportedFormats))
      else None)"

definition check_imageId :: "PicsumOptions \<Rightarrow> error option" where
  "check_imageId options =
     (case imageId options of
        None \<Rightarrow> None
      | Some n \<Rightarrow>
          if (if isInteger n then num_less n 0 else True)
          then Some (ValidationError ''imageId'' (Val (Num n))
                       ''Image ID must be a non-negative integer'')
          else None)"

definition check_seed :: "PicsumOptions \<Rightarrow> error option" where
  "check_seed options =
     (case seed options of
        None \<Rightarrow> None
      | Some s \<Rightarrow>
          if length (trim s) = 0
          then Some (ValidationError ''seed'' (Val (Str s)) ''Seed must be a non-empty string'')
          else None)"

definition check_blur :: "PicsumOptions \<Rightarrow> error option" where
  "check_blur options =
     (case blur options of
        None \<Rightarrow> None
      | Some n \<Rightarrow>
          if (if isInteger n then num_less n 1 \<or> num_greater n 10 else True)
          then Some (ValidationError ''blur'' (Val (Num n))
                       ''Blur must be an integer between 1 and 10'')
          else None)"

definition check_random :: "PicsumOptions \<Rightarrow> error option" where
  "check_random options =
     (case random options of
        None \<Rightarrow> None
      | Some n \<Rightarrow>
          if (if isInteger n then num_less n 0 else True)
          then Some (ValidationError ''random'' (Val (Num n))
                       ''Random must be a non-negative integer'')
          else None)"

definition check_exclusive :: "PicsumOptions \<Rightarrow> error option" where
  "check_exclusive options =
     (if imageId options \<noteq> None \<and> seed options \<noteq> None
      then Some (ValidationError ''options'' (Val (Str ''imageId and seed both specified''))
                   ''Cannot specify both imageId and seed - they are mutually exclusive'')
      else None)"

definition picsum_validateOptions :: "PicsumOptions option \<Rightarrow> error + bool" where
  "picsum_validateOptions opts =
     (case opts of
        None \<Rightarrow> Inr True
      | Some options \<Rightarrow>
          first_error [check_picsum_format options, check_imageId options, check_seed options,
                       check_blur options, check_random options, check_exclusive options])"

text \<open>\<open>if (options?.imageId) ... else if (options?.seed) ...\<close>\<close>

definition picsum_prefix :: "PicsumOptions option \<Rightarrow> error + string" where
  "picsum_prefix opts =
     (case opts of
        None \<Rightarrow> Inr []
      | Some options \<Rightarrow>
          if num_present (imageId options) then Inr (''/id/'' @ num_str (imageId options))
          else if present (seed options)
          then (case encodeURIComponent (str (seed options)) of
                  None \<Rightarrow> Inl URIError
                | Some encoded \<Rightarrow> Inr (''/seed/'' @ encoded))
          else Inr [])"

definition picsum_size :: "jsvalue \<Rightarrow> jsvalue \<Rightarrow> string" where
  "picsum_size w h =
     ''/'' @ toString w @ (if truthy h \<and> strict_neq h w then ''/'' @ toString h else [])"

definition picsum_format :: "PicsumOptions option \<Rightarrow> string" where
  "picsum_format opts =
     (case opts of
        None \<Rightarrow> []
      | Some options \<Rightarrow>
          if present (PicsumOptions.format options)
          then ''.'' @ str (PicsumOptions.format options) else [])"

definition picsum_queryParams :: "PicsumOptions option \<Rightarrow> string list" where
  "picsum_queryParams opts =
     (case opts of
        None \<Rightarrow> []
      | Some options \<Rightarrow>
          (if grayscale options = Some True then [''grayscale''] else []) @
          (case blur options of
             None \<Rightarrow> []
           | Some n \<Rightarrow>
               if n = Integer 0 \<or> n = Integer 1 then [''blur'']
               else [''blur='' @ num_toString n]) @
          (case random options of
             None \<Rightarrow> []
           | Some n \<Rightarrow> [''random='' @ num_toString n]))"

text \<open>\<open>PicsumUrlBuilder.buildUrl(width, height, options)\<close> of a builder with the given
  \<open>baseUrl\<close>.\<close>

definition picsum_buildUrl ::
  "string \<Rightarrow> jsvalue \<Rightarrow> jsvalue \<Rightarrow> PicsumOptions option \<Rightarrow> error + string" where
  "picsum_buildUrl baseUrl w h opts =
     (case validateDimensions w h of
        Inl e \<Rightarrow> Inl e
      | Inr _ \<Rightarrow>
          (case (case opts of None \<Rightarrow> Inr True | Some _ \<Rightarrow> picsum_validateOptions opts) of
             Inl e \<Rightarrow> Inl e
           | Inr _ \<Rightarrow>
               (case picsum_prefix opts of
                  Inl e \<Rightarrow> Inl e
                | Inr prefix \<Rightarrow>
                    Inr (baseUrl @ prefix @ picsum_size w h @ picsum_format opts @
                         queryString (picsum_queryParams opts)))))"

section \<open>PlaceholderValidator\<close>

fun isString :: "jsvalue \<Rightarrow> bool" where
  "isString (Str s) = True"
| "isString v = False"

fun isNumber :: "jsvalue \<Rightarrow> bool" where
  "isNumber (Num n) = True"
| "isNumber v = False"

fun isNaN :: "jsvalue \<Rightarrow> bool" where
  "isNaN (Num NaN) = True"
| "isNaN v = False"

definition validateProvider :: "ValidationConstraints \<Rightarrow> jsvalue \<Rightarrow> error + unit" where
  "validateProvider c p =
     (if (if truthy p then \<not> isString p else True)
      then Inl (ValidationError ''provider'' (Val p) ''Must be a non-empty string'')
      else if toString p \<notin> set (supportedProviders c)
      then Inl (ProviderError (toString p)
                  (''Unsupported provider. Supported providers: '' @
                   join '', '' (supportedProviders c)) [])
      else Inr ())"

definition validateDimension ::
  "ValidationConstraints \<Rightarrow> string \<Rightarrow> jsvalue \<Rightarrow> error + unit" where
  "validateDimension c dimensionName v =
     (if (if isNumber v then isNaN v \<or> \<not> Number_isInteger v else True)
      then Inl (ValidationError dimensionName (Val v) ''Must be a positive integer'')
      else
        (let minConstraint = (if dimensionName = ''width'' then minWidth c else minHeight c);
             maxConstraint = (if dimensionName = ''width'' then maxWidth c else maxHeight c)
         in if js_less_than v minConstraint \<or> js_greater_than v maxConstraint
            then Inl (ValidationError dimensionName (Val v)
                        (''Must be between '' @ num_toString minConstraint @ '' and '' @
                         num_toString maxConstraint @ '' pixels''))
            else Inr ()))"

definition validateProviderOptions :: "ImagePlaceholderParams \<Rightarrow> error + unit" where
  "validateProviderOptions params =
     (case (if provider params = Str ''placehold'' then picsumOptions params else None) of
        Some po \<Rightarrow>
          Inl (ValidationError ''picsumOptions'' (PicsumObject po)
                 ''Cannot use picsum options with placehold provider'')
      | None \<Rightarrow>
          (case (if provider params = Str ''lorem-picsum'' then placeholdOptions params else None) of
             Some po \<Rightarrow>
               Inl (ValidationError ''placeholdOptions'' (PlaceholdObject po)
                      ''Cannot use placehold options with lorem-picsum provider'')
           | None \<Rightarrow> Inr ()))"

text \<open>\<open>validateParams(params)\<close>; \<open>None\<close> is a request that is not an object.\<close>

definition validateParams ::
  "ValidationConstraints \<Rightarrow> ImagePlaceholderParams option \<Rightarrow> error + unit" where
  "validateParams c request =
     (case request of
        None \<Rightarrow> Inl (ValidationError ''params'' NoParams ''Must be a valid object'')
      | Some params \<Rightarrow>
          (case validateProvider c (provider params) of
             Inl e \<Rightarrow> Inl e
           | Inr _ \<Rightarrow>
               (case validateDimension c ''width'' (width params) of
                  Inl e \<Rightarrow> Inl e
                | Inr _ \<Rightarrow>
                    (case (if height params \<noteq> Undefined
                           then validateDimension c ''height'' (height params) else Inr ()) of
                       Inl e \<Rightarrow> Inl e
                     | Inr _ \<Rightarrow> validateProviderOptions params))))"

definition DEFAULT_CONSTRAINTS :: ValidationConstraints where
  "DEFAULT_CONSTRAINTS =
     \<lparr> minWidth = Integer 1, maxWidth = Integer 10000, minHeight = Integer 1,
       maxHeight = Integer 10000,
       supportedProviders = [''placehold'', ''lorem-picsum''] \<rparr>"

section \<open>UrlBuilderFactory\<close>

definition PROVIDER_CONFIGS :: "(string \<times> string) list" where
  "PROVIDER_CONFIGS =
     [(''placehold'', ''https://placehold.co''), (''lorem-picsum'', ''https://picsum.photos'')]"

text \<open>
  \<open>PROVIDER_CONFIGS\<close> is an object literal, so \<open>PROVIDER_CONFIGS[provider]\<close> also finds
  the properties every object inherits; their values are truthy and are not builders' origins.
\<close>

definition inheritedKeys :: "string list" where
  "inheritedKeys =
     [''constructor'', ''__defineGetter__'', ''__defineSetter__'', ''hasOwnProperty'',
      ''__lookupGetter__'', ''__lookupSetter__'', ''isPrototypeOf'', ''propertyIsEnumerable'',
      ''toString'', ''valueOf'', ''__proto__'', ''toLocaleString'']"

datatype UrlBuilder = PlaceholdUrlBuilder string | PicsumUrlBuilder string

definition createBuilder :: "jsvalue \<Rightarrow> error + UrlBuilder" where
  "createBuilder p =
     (case map_of PROVIDER_CONFIGS (toString p) of
        None \<Rightarrow>
          if toString p \<in> set inheritedKeys
          then Inl (ProviderError (toString p)
                      (''No URL builder implemented for provider: '' @ toString p)
                      (map fst PROVIDER_CONFIGS))
          else Inl (ProviderError (toString p) (''Unsupported provider: '' @ toString p)
                      (map fst PROVIDER_CONFIGS))
      | Some baseUrl \<Rightarrow>
          if p = Str ''placehold'' then Inr (PlaceholdUrlBuilder baseUrl)
          else if p = Str ''lorem-picsum'' then Inr (PicsumUrlBuilder baseUrl)
          else Inl (ProviderError (toString p)
                      (''No URL builder implemented for provider: '' @ toString p)
                      (map fst PROVIDER_CONFIGS)))"

text \<open>
  \<open>urlBuilder.buildUrl(width, height, options)\<close> through the \<open>UrlBuilder\<close> interface, whose
  options are untyped. A builder handed the other provider's options object reads from it the
  properties it knows by name; the two option types share \<open>format\<close> only.
\<close>

datatype options_arg = PlaceholdArg "PlaceholdOptions option" | PicsumArg "PicsumOptions option"

definition asPlaceholdOptions :: "PicsumOptions \<Rightarrow> PlaceholdOptions" where
  "asPlaceholdOptions options =
     \<lparr> format = PicsumOptions.format options, backgroundColor = None, textColor = None,
       customText = None, font = None, retina = None \<rparr>"

definition asPicsumOptions :: "PlaceholdOptions \<Rightarrow> PicsumOptions" where
  "asPicsumOptions options =
     \<lparr> PicsumOptions.format = format options, imageId = None, seed = None, grayscale = None,
       blur = None, random = None \<rparr>"

fun buildUrl :: "UrlBuilder \<Rightarrow> jsvalue \<Rightarrow> jsvalue \<Rightarrow> options_arg \<Rightarrow> error + string" where
  "buildUrl (PlaceholdUrlBuilder baseUrl) w h (PlaceholdArg opts) =
     placehold_buildUrl baseUrl w h opts"
| "buildUrl (PlaceholdUrlBuilder baseUrl) w h (PicsumArg opts) =
     placehold_buildUrl baseUrl w h (map_option asPlaceholdOptions opts)"
| "buildUrl (PicsumUrlBuilder baseUrl) w h (PicsumArg opts) =
     picsum_buildUrl baseUrl w h opts"
| "buildUrl (PicsumUrlBuilder baseUrl) w h (PlaceholdArg opts) =
     picsum_buildUrl baseUrl w h (map_option asPicsumOptions opts)"

section \<open>PlaceholderGenerator\<close>

text \<open>
  The generator that builds URLs through \<open>UrlBuilderFactory\<close> (the class that
  \<open>core/placeholderGenerator.ts\<close> ends with; the template-substituting class before it
  in the file is the older version and is not modelled). \<open>generatePlaceholder\<close> is
  \<open>async\<close>: the promise's value is \<open>Inr\<close>, its rejection \<open>Inl\<close>.

  The body of the \<open>try\<close> block of \<open>generatePlaceholder\<close>, entered after
  \<open>validateParams\<close> has returned.
\<close>

definition generateBody :: "ImagePlaceholderParams \<Rightarrow> error + ImagePlaceholderResult" where
  "generateBody params =
     (case createBuilder (provider params) of
        Inl e \<Rightarrow> Inl e
      | Inr urlBuilder \<Rightarrow>
          (let effectiveHeight = (if truthy (height params) then height params else width params)
           in case (if provider params = Str ''placehold''
                    then buildUrl urlBuilder (width params) (height params)
                           (PlaceholdArg (placeholdOptions params))
                    else if provider params = Str ''lorem-picsum''
                    then buildUrl urlBuilder (width params) (height params)
                           (PicsumArg (picsumOptions params))
                    else Inl (ProviderError (toString (provider params))
                                ''Unsupported provider'' [])) of
                Inl e \<Rightarrow> Inl e
              | Inr u \<Rightarrow>
                  Inr \<lparr> url = u, res_provider = provider params,
                        dimensions = \<lparr> dim_width = width params, dim_height = effectiveHeight \<rparr>,
                        appliedPlaceholdOptions = placeholdOptions params,
                        appliedPicsumOptions = picsumOptions params \<rparr>))"

text \<open>
  \<open>generatePlaceholder(params)\<close> of a generator whose validator holds the constraints
  \<open>c\<close>: the result it resolves to, or the error it rejects with.
\<close>

definition generatePlaceholder ::
  "ValidationConstraints \<Rightarrow> ImagePlaceholderParams option \<Rightarrow> error + ImagePlaceholderResult"
  where
  "generatePlaceholder c request =
     (case validateParams c request of
        Inl e \<Rightarrow> Inl e
      | Inr _ \<Rightarrow> (case request of None \<Rightarrow> Inl TypeError | Some params \<Rightarrow> generateBody params))"

section \<open>Unfolding rules\<close>

lemmas value_defs = decimalDigits_def upperLetters_def lowerLetters_def kelvinSign_def trim_def
  whiteSpace_def stripLeading.simps encodeURIComponent_def digitsOf.simps isSafeInteger_def

lemmas placehold_defs = placehold_buildUrl_def validateDimensions_def placehold_validateOptions_def
  check_format_def check_retina_format_def check_colors_def check_font_def check_retina_def
  placehold_size_def placehold_retina_def placehold_colors_def placehold_format_def
  placehold_queryParams_def queryString_def supportedFormats_def supportedFonts_def
  retinaFormats_def isValidColor_def isValidCssColor_def cssColors_def encodeText_def

lemmas picsum_defs = picsum_buildUrl_def validateDimensions_def picsum_validateOptions_def
  check_picsum_format_def check_imageId_def check_seed_def check_blur_def check_random_def
  check_exclusive_def picsum_prefix_def picsum_size_def picsum_format_def picsum_queryParams_def
  queryString_def picsum_supportedFormats_def

lemmas validator_defs = validateParams_def validateProvider_def validateDimension_def
  validateProviderOptions_def DEFAULT_CONSTRAINTS_def

lemmas generator_defs = generatePlaceholder_def generateBody_def createBuilder_def
  PROVIDER_CONFIGS_def inheritedKeys_def

section \<open>Facts about the validators\<close>

lemma builder_bound:
  "(if Number_isInteger v then js_less v 10 \<or> js_greater v 4000 else True) \<longleftrightarrow>
     (\<nexists>i. v = Num (Integer i) \<and> 10 \<le> i \<and> i \<le> 4000)"
proof (cases v)
  case (Num n)
  then show ?thesis by (cases n) (auto simp: isSafeInteger_def)
qed simp_all

lemma validateDimensions_ok:
  "validateDimensions w h = Inr () \<longleftrightarrow>
     (\<exists>i. w = Num (Integer i) \<and> 10 \<le> i \<and> i \<le> 4000) \<and>
     (h = Undefined \<or> (\<exists>j. h = Num (Integer j) \<and> 10 \<le> j \<and> j \<le> 4000))"
  unfolding validateDimensions_def builder_bound by auto

lemma valid_height_truthy:
  assumes "validateDimensions w h = Inr ()"
  shows "(truthy h \<and> strict_neq h w) = (h \<noteq> Undefined \<and> h \<noteq> w)"
proof -
  from assms obtain i where w: "w = Num (Integer i)"
    by (auto simp: validateDimensions_ok)
  from assms have "h = Undefined \<or> (\<exists>j. h = Num (Integer j) \<and> 10 \<le> j)"
    by (auto simp: validateDimensions_ok)
  then show ?thesis using w by auto
qed

lemma first_error_Inr: "first_error cs = Inr b \<Longrightarrow> b \<and> (\<forall>c \<in> set cs. c = None)"
  by (induction cs rule: first_error.induct) auto

lemma first_error_Inl: "first_error cs = Inl e \<Longrightarrow> Some e \<in> set cs"
  by (induction cs rule: first_error.induct) auto

lemma first_error_fails: "Some e \<in> set cs \<Longrightarrow> \<exists>e'. first_error cs = Inl e'"
  by (induction cs rule: first_error.induct) auto

lemma check_picsum_format_kind:
  "check_picsum_format options = Some e \<Longrightarrow> \<exists>f v m. e = ValidationError f v m"
  unfolding check_picsum_format_def by (cases "present (PicsumOptions.format options) \<and>
         str (PicsumOptions.format options) \<notin> set picsum_supportedFormats") auto

lemma check_imageId_kind:
  "check_imageId options = Some e \<Longrightarrow> \<exists>f v m. e = ValidationError f v m"
  unfolding check_imageId_def by (cases "imageId options") (auto split: if_splits)

lemma check_seed_kind:
  "check_seed options = Some e \<Longrightarrow> \<exists>f v m. e = ValidationError f v m"
  unfolding check_seed_def by (cases "seed options") (auto split: if_splits)

lemma check_blur_kind:
  "check_blur options = Some e \<Longrightarrow> \<exists>f v m. e = ValidationError f v m"
  unfolding check_blur_def by (cases "blur options") (auto split: if_splits)

lemma check_random_kind:
  "check_random options = Some e \<Longrightarrow> \<exists>f v m. e = ValidationError f v m"
  unfolding check_random_def by (cases "random options") (auto split: if_splits)

lemma check_exclusive_kind:
  "check_exclusive options = Some e \<Longrightarrow> \<exists>f v m. e = ValidationError f v m"
  unfolding check_exclusive_def by (auto split: if_splits)

lemma picsum_checks_ValidationError:
  assumes "Some e \<in> set [check_picsum_format options, check_imageId options, check_seed options,
                      check_blur options, check_random options, check_exclusive options]"
  shows "\<exists>f v m. e = ValidationError f v m"
proof -
  from assms consider "check_picsum_format options = Some e" | "check_imageId options = Some e"
    | "check_seed options = Some e" | "check_blur options = Some e"
    | "check_random options = Some e" | "check_exclusive options = Some e"
    by (simp only: set_simps insert_iff empty_iff) metis
  then show ?thesis
    by cases (erule check_picsum_format_kind check_imageId_kind check_seed_kind check_blur_kind
        check_random_kind check_exclusive_kind)+
qed

lemma check_blur_None:
  "check_blur options = None \<longleftrightarrow>
     (\<forall>n. blur options = Some n \<longrightarrow> (\<exists>k. n = Integer k \<and> 1 \<le> k \<and> k \<le> 10))"
proof (cases "blur options")
  case None
  then show ?thesis by (simp add: check_blur_def)
next
  case (Some n)
  then show ?thesis by (cases n) (auto simp: check_blur_def isSafeInteger_def)
qed

lemma validateDimension_default:
  "validateDimension DEFAULT_CONSTRAINTS name v = Inr () \<longleftrightarrow>
     (\<exists>i. v = Num (Integer i) \<and> 1 \<le> i \<and> i \<le> 10000)"
proof (cases v)
  case (Num n)
  then show ?thesis
    by (cases n)
      (auto simp: validateDimension_def DEFAULT_CONSTRAINTS_def Let_def isSafeInteger_def)
qed (simp_all add: validateDimension_def)

lemma validateProvider_default:
  "validateProvider DEFAULT_CONSTRAINTS v = Inr () \<longleftrightarrow>
     v = Str ''placehold'' \<or> v = Str ''lorem-picsum''"
  by (cases v) (auto simp: validateProvider_def DEFAULT_CONSTRAINTS_def)

lemma validateProviderOptions_ok:
  "validateProviderOptions p = Inr () \<longleftrightarrow>
     \<not> (provider p = Str ''placehold'' \<and> picsumOptions p \<noteq> None) \<and>
     \<not> (provider p = Str ''lorem-picsum'' \<and> placeholdOptions p \<noteq> None)"
  by (auto simp: validateProviderOptions_def split: option.splits)

lemma validateParams_default:
  "validateParams DEFAULT_CONSTRAINTS (Some p) = Inr () \<longleftrightarrow>
     (provider p = Str ''placehold'' \<and> picsumOptions p = None \<or>
      provider p = Str ''lorem-picsum'' \<and> placeholdOptions p = None) \<and>
     (\<exists>i. width p = Num (Integer i) \<and> 1 \<le> i \<and> i \<le> 10000) \<and>
     (height p = Undefined \<or> (\<exists>j. height p = Num (Integer j) \<and> 1 \<le> j \<and> j \<le> 10000))"
proof -
  have "validateParams DEFAULT_CONSTRAINTS (Some p) = Inr () \<longleftrightarrow>
          validateProvider DEFAULT_CONSTRAINTS (provider p) = Inr () \<and>
          validateDimension DEFAULT_CONSTRAINTS ''width'' (width p) = Inr () \<and>
          (height p = Undefined \<or>
           validateDimension DEFAULT_CONSTRAINTS ''height'' (height p) = Inr ()) \<and>
          validateProviderOptions p = Inr ()"
    by (auto simp: validateParams_def split: sum.splits)
  then show ?thesis
    unfolding validateProvider_default validateDimension_default validateProviderOptions_ok
    by auto
qed

section \<open>Facts about the builders and the generator\<close>

lemma placehold_buildUrl_Inr:
  assumes "placehold_buildUrl base w h opts = Inr u"
  shows "validateDimensions w h = Inr ()"
    and "u = base @ placehold_size w h @ placehold_retina opts @ placehold_colors opts @
             placehold_format opts @ queryString (placehold_queryParams opts)"
  using assms by (auto simp: placehold_buildUrl_def split: sum.splits)

lemma generatePlaceholder_placehold:
  assumes "generatePlaceholder c (Some p) = Inr r" and "provider p = Str ''placehold''"
  shows "placehold_buildUrl ''https://placehold.co'' (width p) (height p) (placeholdOptions p)
           = Inr (url r)"
    and "dimensions r =
           \<lparr> dim_width = width p,
             dim_height = (if truthy (height p) then height p else width p) \<rparr>"
  using assms
  by (auto simp: generatePlaceholder_def generateBody_def createBuilder_def PROVIDER_CONFIGS_def
      Let_def split: sum.splits if_splits)

lemma placehold_square:
  "placehold_buildUrl base w w opts = placehold_buildUrl base w Undefined opts"
proof (cases "validateDimensions w Undefined")
  case (Inl e)
  then have "validateDimensions w w = Inl e"
    by (auto simp: validateDimensions_def split: if_splits)
  with Inl show ?thesis by (simp add: placehold_buildUrl_def)
next
  case (Inr u)
  then obtain i where w: "w = Num (Integer i)" "10 \<le> i" "i \<le> 4000"
    by (auto simp: validateDimensions_ok)
  then have "validateDimensions w w = Inr ()" by (simp add: validateDimensions_ok)
  moreover have "placehold_size w w = placehold_size w Undefined"
    using w by (simp add: placehold_size_def)
  ultimately show ?thesis using Inr
    by (simp add: placehold_buildUrl_def split: sum.splits option.splits)
qed

lemma placehold_validateOptions_cases:
  "placehold_validateOptions opts = Inr True \<or> (\<exists>e. placehold_validateOptions opts = Inl e)"
proof (cases "placehold_validateOptions opts")
  case (Inr b)
  then have b by (auto simp: placehold_validateOptions_def split: option.splits
        dest: first_error_Inr)
  with Inr show ?thesis by simp
qed simp

lemma picsum_validateOptions_cases:
  "picsum_validateOptions opts = Inr True \<or> (\<exists>e. picsum_validateOptions opts = Inl e)"
proof (cases "picsum_validateOptions opts")
  case (Inr b)
  then have b by (auto simp: picsum_validateOptions_def split: option.splits
        dest: first_error_Inr)
  with Inr show ?thesis by simp
qed simp

lemma placehold_buildUrl_succeeds:
  "(\<exists>u. placehold_buildUrl base w h opts = Inr u) \<longleftrightarrow>
     validateDimensions w h = Inr () \<and> placehold_validateOptions opts = Inr True"
  using placehold_validateOptions_cases [of opts]
  by (auto simp: placehold_buildUrl_def placehold_validateOptions_def
      split: sum.splits option.splits)

lemma picsum_buildUrl_succeeds:
  "(\<exists>u. picsum_buildUrl base w h opts = Inr u) \<longleftrightarrow>
     validateDimensions w h = Inr () \<and> picsum_validateOptions opts = Inr True \<and>
     (\<exists>prefix. picsum_prefix opts = Inr prefix)"
  using picsum_validateOptions_cases [of opts]
  by (auto simp: picsum_buildUrl_def picsum_validateOptions_def
      split: sum.splits option.splits)

lemma generateBody_placehold:
  assumes "provider p = Str ''placehold''"
  shows "generateBody p =
           (case placehold_buildUrl ''https://placehold.co'' (width p) (height p)
                   (placeholdOptions p) of
              Inl e \<Rightarrow> Inl e
            | Inr u \<Rightarrow>
                Inr \<lparr> url = u, res_provider = provider p,
                      dimensions = \<lparr> dim_width = width p,
                                     dim_height = (if truthy (height p) then height p
                                                   else width p) \<rparr>,
                      appliedPlaceholdOptions = placeholdOptions p,
                      appliedPicsumOptions = picsumOptions p \<rparr>)"
  using assms
  by (simp add: generateBody_def createBuilder_def PROVIDER_CONFIGS_def Let_def)

lemma generateBody_picsum:
  assumes "provider p = Str ''lorem-picsum''"
  shows "generateBody p =
           (case picsum_buildUrl ''https://picsum.photos'' (width p) (height p)
                   (picsumOptions p) of
              Inl e \<Rightarrow> Inl e
            | Inr u \<Rightarrow>
                Inr \<lparr> url = u, res_provider = provider p,
                      dimensions = \<lparr> dim_width = width p,
                                     dim_height = (if truthy (height p) then height p
                                                   else width p) \<rparr>,
                      appliedPlaceholdOptions = placeholdOptions p,
                      appliedPicsumOptions = picsumOptions p \<rparr>)"
  using assms
  by (simp add: generateBody_def createBuilder_def PROVIDER_CONFIGS_def Let_def)

lemma buildUrl_width_error:
  assumes "w = Num (Integer i)" and "i < 10 \<or> 4000 < i"
  shows "placehold_buildUrl base w h popts =
           Inl (ValidationError ''width'' (Val w) ''Width must be an integer between 10 and 4000'')"
    and "picsum_buildUrl base w h qopts =
           Inl (ValidationError ''width'' (Val w) ''Width must be an integer between 10 and 4000'')"
  using assms
  by (auto simp: placehold_buildUrl_def picsum_buildUrl_def validateDimensions_def)

lemma buildUrl_height_error:
  assumes "w = Num (Integer i)" and "10 \<le> i" and "i \<le> 4000"
    and "h = Num (Integer j)" and "j < 10 \<or> 4000 < j"
  shows "placehold_buildUrl base w h popts =
           Inl (ValidationError ''height'' (Val h)
                  ''Height must be an integer between 10 and 4000'')"
    and "picsum_buildUrl base w h qopts =
           Inl (ValidationError ''height'' (Val h)
                  ''Height must be an integer between 10 and 4000'')"
  using assms
  by (auto simp: placehold_buildUrl_def picsum_buildUrl_def validateDimensions_def
      isSafeInteger_def)

section \<open>The values at work\<close>

text \<open>
  A seed that is a no-break space (U+00A0) is white space only and is rejected; a seed is
  percent-encoded byte by byte, and one that is an unpaired surrogate (U+D800) makes
  \<open>buildUrl\<close> throw \<open>URIError\<close>; the colour
  name \<open>blac\<close> followed by the Kelvin sign lower-cases to \<open>black\<close> and is accepted.
\<close>

lemma seed_no_break_space_rejected:
  "check_seed \<lparr> PicsumOptions.format = None, imageId = None, seed = Some [CHR 0xC2, CHR 0xA0],
                grayscale = None, blur = None, random = None \<rparr>
   = Some (ValidationError ''seed'' (Val (Str [CHR 0xC2, CHR 0xA0]))
             ''Seed must be a non-empty string'')"
  by (simp add: check_seed_def value_defs)

lemma seed_inner_space_kept:
  "trim ('' a b'' @ [CHR 0xE2, CHR 0x80, CHR 0xA8, CHR 0x0A]) = ''a b''"
  by (simp add: value_defs)

lemma seed_percent_encoded:
  "picsum_buildUrl ''https://picsum.photos'' (Num (Integer 200)) (Num (Integer 300))
     (Some \<lparr> PicsumOptions.format = Some ''jpg'', imageId = None,
             seed = Some (''a b/'' @ [CHR 0xC3, CHR 0xA9]), grayscale = None, blur = None,
             random = None \<rparr>)
   = Inr ''https://picsum.photos/seed/a%20b%2F%C3%A9/200/300.jpg''"
  by (simp add: picsum_defs value_defs)

lemma seed_with_unpaired_surrogate:
  "picsum_buildUrl ''https://picsum.photos'' (Num (Integer 200)) (Num (Integer 300))
     (Some \<lparr> PicsumOptions.format = None, imageId = None,
             seed = Some [CHR 0xED, CHR 0xA0, CHR 0x80], grayscale = None, blur = None,
             random = None \<rparr>)
   = Inl URIError"
  by (simp add: picsum_defs value_defs)

lemma colour_with_kelvin_sign_accepted:
  "isValidColor (''blac'' @ kelvinSign)"
  by (simp add: isValidColor_def isValidCssColor_def cssColors_def value_defs)

section \<open>Characters of the URL components\<close>

lemma digitsOf_chars: "set (digitsOf n) \<subseteq> set decimalDigits"
proof (induction n rule: digitsOf.induct)
  case (1 n)
  show ?case
  proof (cases "n < 10")
    case True
    then have "''0123456789'' ! n \<in> set ''0123456789''" by (intro nth_mem) simp
    with True show ?thesis by (subst digitsOf.simps) (simp add: decimalDigits_def)
  next
    case False
    have "n mod 10 < 10" by simp
    then have "''0123456789'' ! (n mod 10) \<in> set ''0123456789''" by (intro nth_mem) simp
    with False 1 show ?thesis by (subst digitsOf.simps) (simp add: decimalDigits_def)
  qed
qed

lemma size_no_eq:
  assumes "validateDimensions w h = Inr ()"
  shows "CHR ''='' \<notin> set (placehold_size w h)"
proof -
  have d: "\<And>n. CHR ''='' \<notin> set (digitsOf n)"
    using digitsOf_chars by (auto simp: decimalDigits_def)
  from assms obtain i where w: "w = Num (Integer i)" "10 \<le> i"
    by (auto simp: validateDimensions_ok)
  from assms have "h = Undefined \<or> (\<exists>j. h = Num (Integer j) \<and> 10 \<le> j)"
    by (auto simp: validateDimensions_ok)
  then show ?thesis using w d by (auto simp: placehold_size_def)
qed

lemma lowerChar_eq_sign: "lowerChar (CHR ''='') = CHR ''=''"
  by (simp add: upperLetters_def lowerLetters_def)

lemma toLowerCase_keeps_eq:
  "CHR ''='' \<in> set s \<Longrightarrow> CHR ''='' \<in> set (toLowerCase s)"
proof (induction s rule: toLowerCase.induct)
  case 1
  then show ?case by simp
next
  case (2 c cs)
  show ?case
  proof (cases "take 3 (c # cs) = kelvinSign")
    case True
    then have c: "c = CHR 0xE2" and t: "take 2 cs = [CHR 0x84, CHR 0xAA]"
      by (simp_all add: kelvinSign_def)
    have "set cs = set (take 2 cs) \<union> set (drop 2 cs)"
      by (metis append_take_drop_id set_append)
    with "2.prems" c t have "CHR ''='' \<in> set (drop 2 cs)" by auto
    then have "CHR ''='' \<in> set (toLowerCase (drop 2 cs))"
      using True by (rule "2.IH"(1) [rotated])
    with True show ?thesis by simp
  next
    case False
    show ?thesis
    proof (cases "c = CHR ''=''")
      case True
      with False show ?thesis by (simp only: toLowerCase.simps if_False lowerChar_eq_sign) simp
    next
      case c: False
      with "2.prems" have "CHR ''='' \<in> set cs" by simp
      then have "CHR ''='' \<in> set (toLowerCase cs)" using False by (rule "2.IH"(2) [rotated])
      with False show ?thesis by (simp only: toLowerCase.simps if_False) simp
    qed
  qed
qed

lemma cssColors_no_eq: "x \<in> set cssColors \<Longrightarrow> CHR ''='' \<notin> set x"
  unfolding cssColors_def by (simp only: set_simps insert_iff empty_iff) (elim disjE; simp)

lemma not_hex_eq: "\<not> isHexDigit (CHR ''='')"
  by (simp add: decimalDigits_def)

lemma allHex_no_eq: "allHex s \<Longrightarrow> CHR ''='' \<notin> set s"
proof
  assume "allHex s" and "CHR ''='' \<in> set s"
  then have "isHexDigit (CHR ''='')" by (simp add: list_all_iff del: isHexDigit.simps)
  with not_hex_eq show False by blast
qed

lemma isValidColor_no_eq:
  assumes "isValidColor c"
  shows "CHR ''='' \<notin> set c"
proof -
  from assms consider "c = ''transparent''" | "isValidHexColor c" | "isValidCssColor c"
    unfolding isValidColor_def by blast
  then show ?thesis
  proof cases
    case 1
    then show ?thesis by simp
  next
    case 2
    show ?thesis
    proof (cases c)
      case Nil
      then show ?thesis by simp
    next
      case (Cons a as)
      show ?thesis
      proof (cases "a = CHR ''#''")
        case True
        with 2 Cons have "allHex as" by (simp del: allHex.simps)
        then have "CHR ''='' \<notin> set as" by (rule allHex_no_eq)
        with True Cons show ?thesis by simp
      next
        case False
        with 2 Cons have "allHex c" by (simp del: allHex.simps)
        then show ?thesis by (rule allHex_no_eq)
      qed
    qed
  next
    case 3
    then have "CHR ''='' \<notin> set (toLowerCase c)"
      unfolding isValidCssColor_def by (rule cssColors_no_eq)
    then show ?thesis using toLowerCase_keeps_eq by blast
  qed
qed

lemma placehold_checks_pass:
  assumes "placehold_validateOptions (Some options) = Inr b"
  shows "check_format options = None" and "check_retina_format options = None"
    and "check_colors options = None" and "check_font options = None"
    and "check_retina options = None"
  using first_error_Inr [OF assms [unfolded placehold_validateOptions_def option.case]]
  by simp_all

lemma retina_no_eq:
  assumes "check_retina options = None"
  shows "CHR ''='' \<notin> set (placehold_retina (Some options))"
proof (cases "present (retina options)")
  case True
  with assms have "str (retina options) \<in> set [''2x'', ''3x'']"
    by (simp add: check_retina_def split: if_splits)
  then show ?thesis using True by (auto simp: placehold_retina_def)
next
  case False
  then show ?thesis by (simp add: placehold_retina_def)
qed

lemma colors_no_eq:
  assumes "check_colors options = None"
  shows "CHR ''='' \<notin> set (placehold_colors (Some options))"
proof (cases "present (backgroundColor options) \<and> present (textColor options)")
  case True
  with assms have "isValidColor (str (backgroundColor options))"
    and "isValidColor (str (textColor options))"
    by (simp_all add: check_colors_def split: if_splits)
  then have "CHR ''='' \<notin> set (str (backgroundColor options))"
    and "CHR ''='' \<notin> set (str (textColor options))"
    by (simp_all add: isValidColor_no_eq)
  with True show ?thesis by (simp add: placehold_colors_def)
next
  case False
  then show ?thesis by (auto simp: placehold_colors_def)
qed

lemma supportedFormats_no_eq: "x \<in> set supportedFormats \<Longrightarrow> CHR ''='' \<notin> set x"
  unfolding supportedFormats_def by (simp only: set_simps insert_iff empty_iff) (elim disjE; simp)

lemma format_no_eq:
  assumes "check_format options = None"
  shows "CHR ''='' \<notin> set (placehold_format (Some options))"
proof (cases "present (format options)")
  case True
  with assms have "str (format options) \<in> set supportedFormats"
    by (simp add: check_format_def split: if_splits)
  then have "CHR ''='' \<notin> set (str (format options))" by (rule supportedFormats_no_eq)
  then show ?thesis by (simp add: placehold_format_def)
next
  case False
  then show ?thesis by (simp add: placehold_format_def)
qed

lemma supportedFonts_no_eq:
  "x \<in> set supportedFonts \<Longrightarrow> CHR ''='' \<notin> set (replace_first (CHR ''-'') ''+'' x)"
  unfolding supportedFonts_def by (simp only: set_simps insert_iff empty_iff) (elim disjE; simp)

lemma font_no_eq:
  assumes "check_font options = None" and "present (font options)"
  shows "CHR ''='' \<notin> set (replace_first (CHR ''-'') ''+'' (str (font options)))"
proof -
  from assms have "str (font options) \<in> set supportedFonts"
    by (simp add: check_font_def split: if_splits)
  then show ?thesis by (rule supportedFonts_no_eq)
qed

lemma no_text_without_eq:
  assumes "CHR ''='' \<notin> set u"
  shows "\<nexists>pre post. u = pre @ ''text='' @ post"
  using assms by auto

lemma no_text_in_font_query:
  assumes "CHR ''='' \<notin> set path" and "CHR ''='' \<notin> set f"
  shows "\<nexists>pre post. path @ ''?font='' @ f = pre @ ''text='' @ post"
proof
  assume "\<exists>pre post. path @ ''?font='' @ f = pre @ ''text='' @ post"
  then obtain pre post where e: "path @ ''?font='' @ f = pre @ ''text='' @ post" by blast
  then have eq: "(path @ ''?font'') @ CHR ''='' # f = (pre @ ''text'') @ CHR ''='' # post"
    by simp
  have n: "CHR ''='' \<notin> set (path @ ''?font'')" using assms(1) by simp
  from append_Cons_eq_iff [OF n assms(2), THEN iffD1, OF eq]
  have "path @ ''?font'' = pre @ ''text''" by blast
  then have "(path @ ''?'') @ ''font'' = pre @ ''text''" by simp
  then have "''font'' = ''text''" by (subst (asm) append_eq_append_conv) simp_all
  then show False by simp
qed

lemma placehold_buildUrl_Inr_options:
  assumes "placehold_buildUrl base w h (Some options) = Inr u"
  shows "\<exists>b. placehold_validateOptions (Some options) = Inr b"
  using assms by (auto simp: placehold_buildUrl_def split: sum.splits)

section \<open>The full combination (C1)\<close>

text \<open>
  C1. The placehold builder, asked for 1200 by 630 with retina \<open>2x\<close>, the colours
  \<open>f9fafb\<close> and \<open>2563eb\<close>, format \<open>png\<close>, the text \<open>DeepakNess\<close> and the font
  \<open>playfair-display\<close>, returns exactly
  \<open>https://placehold.co/1200x630@2x/f9fafb/2563eb.png?text=DeepakNess&font=playfair+display\<close>:
  size, retina suffix, colour pair, format extension, then the query with text before font,
  joined by an ampersand.
\<close>

theorem C1_full_combination:
  "placehold_buildUrl ''https://placehold.co'' (Num (Integer 1200)) (Num (Integer 630))
     (Some \<lparr> format = Some ''png'', backgroundColor = Some ''f9fafb'',
             textColor = Some ''2563eb'', customText = Some ''DeepakNess'',
             font = Some ''playfair-display'', retina = Some ''2x'' \<rparr>)
   = Inr ''https://placehold.co/1200x630@2x/f9fafb/2563eb.png?text=DeepakNess&font=playfair+display''"
  by (simp add: placehold_defs value_defs)

section \<open>Retina and format (C2)\<close>

text \<open>
  What holds of the coupling: a retina option together with the explicit format \<open>svg\<close> is
  rejected by the compatibility check, and with \<open>png\<close> the suffix \<open>@2x\<close> follows the size
  and the extension \<open>.png\<close> comes after it.
\<close>

lemma retina_with_svg_rejected:
  assumes "present (retina options)" and "format options = Some ''svg''"
  shows "placehold_validateOptions (Some options) =
           Inl (ValidationError ''retina'' (Val (Str (str (retina options) @ '' with svg'')))
                  ''Retina scaling is only supported for: png, jpeg, gif, webp, avif'')"
  using assms
  by (simp add: placehold_validateOptions_def check_format_def check_retina_format_def
      supportedFormats_def retinaFormats_def)

lemma retina_with_png_accepted:
  "placehold_buildUrl ''https://placehold.co'' (Num (Integer 600)) (Num (Integer 400))
     (Some \<lparr> format = Some ''png'', backgroundColor = None, textColor = None, customText = None,
             font = None, retina = Some ''2x'' \<rparr>) = Inr ''https://placehold.co/600x400@2x.png''"
  by (simp add: placehold_defs value_defs)

text \<open>
  C2. The claim: retina is legal only with an explicit raster format, so validation fails for
  retina with \<open>svg\<close> and likewise for retina with the format absent (\<open>svg\<close> being the
  default). The code checks the compatibility only when a format is given
  (\<open>options.retina && options.format && ...\<close>): with retina \<open>2x\<close> and no format,
  \<open>validateOptions\<close> returns true and \<open>buildUrl\<close> returns a URL with \<open>@2x\<close> and no
  extension, that is, retina on the default \<open>svg\<close>.
\<close>

theorem C2_retina_without_format_accepted:
  "placehold_validateOptions
     (Some \<lparr> format = None, backgroundColor = None, textColor = None, customText = None,
             font = None, retina = Some ''2x'' \<rparr>) = Inr True \<and>
   placehold_buildUrl ''https://placehold.co'' (Num (Integer 600)) (Num (Integer 400))
     (Some \<lparr> format = None, backgroundColor = None, textColor = None, customText = None,
             font = None, retina = Some ''2x'' \<rparr>) = Inr ''https://placehold.co/600x400@2x''"
  by (simp add: placehold_defs value_defs)

section \<open>Dimension bounds (C3)\<close>

text \<open>
  Under the default constraints a width of 1 passes the validator and is then rejected by the
  builder, so a request at the validator's minimum does not succeed through
  \<open>generatePlaceholder\<close>.
\<close>

theorem C3_min_width_counterexample:
  "validateParams DEFAULT_CONSTRAINTS
     (Some \<lparr> provider = Str ''placehold'', width = Num (Integer 1), height = Undefined,
             placeholdOptions = None, picsumOptions = None \<rparr>) = Inr () \<and>
   generatePlaceholder DEFAULT_CONSTRAINTS
     (Some \<lparr> provider = Str ''placehold'', width = Num (Integer 1), height = Undefined,
             placeholdOptions = None, picsumOptions = None \<rparr>)
   = Inl (ValidationError ''width'' (Val (Num (Integer 1)))
            ''Width must be an integer between 10 and 4000'')"
  by (simp add: validator_defs generator_defs placehold_defs value_defs)

text \<open>
  C3, as the code has it. Under the default constraints \<open>validateParams\<close> accepts a request
  exactly when the provider is one of the two with no options object of the other, the width
  is an integer from 1 to 10000, and the height is absent or an integer from 1 to 10000. The
  builder layer re-validates against its own bounds: \<open>validateDimensions\<close> accepts exactly
  an integer width from 10 to 4000 with an absent height or an integer height from 10 to 4000.
  \<open>generatePlaceholder\<close> runs both, whatever options the request carries: it succeeds
  exactly when \<open>validateParams\<close> accepts the request, the width and the height (when given)
  lie between 10 and 4000, and the builder accepts the provider's options (and, for picsum,
  the seed it puts in the path can be percent-encoded). A width that the
  validator accepts outside 10 to 4000 is rejected with the builder's width error, and
  likewise a height, once the width is within the builder's bounds.
\<close>

theorem C3_dimension_bounds:
  "(validateParams DEFAULT_CONSTRAINTS (Some p) = Inr () \<longleftrightarrow>
      (provider p = Str ''placehold'' \<and> picsumOptions p = None \<or>
       provider p = Str ''lorem-picsum'' \<and> placeholdOptions p = None) \<and>
      (\<exists>i. width p = Num (Integer i) \<and> 1 \<le> i \<and> i \<le> 10000) \<and>
      (height p = Undefined \<or> (\<exists>j. height p = Num (Integer j) \<and> 1 \<le> j \<and> j \<le> 10000))) \<and>
   (validateDimensions w h = Inr () \<longleftrightarrow>
      (\<exists>i. w = Num (Integer i) \<and> 10 \<le> i \<and> i \<le> 4000) \<and>
      (h = Undefined \<or> (\<exists>j. h = Num (Integer j) \<and> 10 \<le> j \<and> j \<le> 4000))) \<and>
   ((\<exists>r. generatePlaceholder DEFAULT_CONSTRAINTS (Some p) = Inr r) \<longleftrightarrow>
      validateParams DEFAULT_CONSTRAINTS (Some p) = Inr () \<and>
      (\<exists>i. width p = Num (Integer i) \<and> 10 \<le> i \<and> i \<le> 4000) \<and>
      (height p = Undefined \<or> (\<exists>j. height p = Num (Integer j) \<and> 10 \<le> j \<and> j \<le> 4000)) \<and>
      (if provider p = Str ''placehold''
       then placehold_validateOptions (placeholdOptions p) = Inr True
       else picsum_validateOptions (picsumOptions p) = Inr True \<and>
            (\<exists>prefix. picsum_prefix (picsumOptions p) = Inr prefix))) \<and>
   (validateParams DEFAULT_CONSTRAINTS (Some p) = Inr () \<and> width p = Num (Integer i) \<and>
    (i < 10 \<or> 4000 < i) \<longrightarrow>
      generatePlaceholder DEFAULT_CONSTRAINTS (Some p) =
        Inl (ValidationError ''width'' (Val (width p))
               ''Width must be an integer between 10 and 4000'')) \<and>
   (validateParams DEFAULT_CONSTRAINTS (Some p) = Inr () \<and> width p = Num (Integer i) \<and>
    10 \<le> i \<and> i \<le> 4000 \<and> height p = Num (Integer j) \<and> (j < 10 \<or> 4000 < j) \<longrightarrow>
      generatePlaceholder DEFAULT_CONSTRAINTS (Some p) =
        Inl (ValidationError ''height'' (Val (height p))
               ''Height must be an integer between 10 and 4000''))"
proof (intro conjI impI)
  show "validateParams DEFAULT_CONSTRAINTS (Some p) = Inr () \<longleftrightarrow>
      (provider p = Str ''placehold'' \<and> picsumOptions p = None \<or>
       provider p = Str ''lorem-picsum'' \<and> placeholdOptions p = None) \<and>
      (\<exists>i. width p = Num (Integer i) \<and> 1 \<le> i \<and> i \<le> 10000) \<and>
      (height p = Undefined \<or> (\<exists>j. height p = Num (Integer j) \<and> 1 \<le> j \<and> j \<le> 10000))"
    by (rule validateParams_default)
  show "validateDimensions w h = Inr () \<longleftrightarrow>
      (\<exists>i. w = Num (Integer i) \<and> 10 \<le> i \<and> i \<le> 4000) \<and>
      (h = Undefined \<or> (\<exists>j. h = Num (Integer j) \<and> 10 \<le> j \<and> j \<le> 4000))"
    by (rule validateDimensions_ok)
  show "(\<exists>r. generatePlaceholder DEFAULT_CONSTRAINTS (Some p) = Inr r) \<longleftrightarrow>
      validateParams DEFAULT_CONSTRAINTS (Some p) = Inr () \<and>
      (\<exists>i. width p = Num (Integer i) \<and> 10 \<le> i \<and> i \<le> 4000) \<and>
      (height p = Undefined \<or> (\<exists>j. height p = Num (Integer j) \<and> 10 \<le> j \<and> j \<le> 4000)) \<and>
      (if provider p = Str ''placehold''
       then placehold_validateOptions (placeholdOptions p) = Inr True
       else picsum_validateOptions (picsumOptions p) = Inr True \<and>
            (\<exists>prefix. picsum_prefix (picsumOptions p) = Inr prefix))"
  proof (cases "validateParams DEFAULT_CONSTRAINTS (Some p)")
    case (Inl e)
    then show ?thesis by (simp add: generatePlaceholder_def)
  next
    case (Inr u)
    then have ok: "validateParams DEFAULT_CONSTRAINTS (Some p) = Inr ()" by simp
    then have g: "generatePlaceholder DEFAULT_CONSTRAINTS (Some p) = generateBody p"
      by (simp add: generatePlaceholder_def)
    from ok consider "provider p = Str ''placehold''" | "provider p = Str ''lorem-picsum''"
      unfolding validateParams_default by auto
    then show ?thesis
    proof cases
      case 1
      have "(\<exists>r. generateBody p = Inr r) \<longleftrightarrow>
              (\<exists>u. placehold_buildUrl ''https://placehold.co'' (width p) (height p)
                      (placeholdOptions p) = Inr u)"
        unfolding generateBody_placehold [OF 1] by (auto split: sum.splits)
      then show ?thesis
        unfolding g placehold_buildUrl_succeeds validateDimensions_ok using ok 1 by simp
    next
      case 2
      have "(\<exists>r. generateBody p = Inr r) \<longleftrightarrow>
              (\<exists>u. picsum_buildUrl ''https://picsum.photos'' (width p) (height p)
                      (picsumOptions p) = Inr u)"
        unfolding generateBody_picsum [OF 2] by (auto split: sum.splits)
      then show ?thesis
        unfolding g picsum_buildUrl_succeeds validateDimensions_ok using ok 2 by simp
    qed
  qed
next
  assume a: "validateParams DEFAULT_CONSTRAINTS (Some p) = Inr () \<and> width p = Num (Integer i) \<and>
    (i < 10 \<or> 4000 < i)"
  then have g: "generatePlaceholder DEFAULT_CONSTRAINTS (Some p) = generateBody p"
    by (simp add: generatePlaceholder_def)
  from a consider "provider p = Str ''placehold''" | "provider p = Str ''lorem-picsum''"
    unfolding validateParams_default by auto
  then show "generatePlaceholder DEFAULT_CONSTRAINTS (Some p) =
        Inl (ValidationError ''width'' (Val (width p))
               ''Width must be an integer between 10 and 4000'')"
  proof cases
    case 1
    show ?thesis
      unfolding g generateBody_placehold [OF 1] using a
      by (simp add: buildUrl_width_error(1) [of _ i])
  next
    case 2
    show ?thesis
      unfolding g generateBody_picsum [OF 2] using a
      by (simp add: buildUrl_width_error(2) [of _ i])
  qed
next
  assume a: "validateParams DEFAULT_CONSTRAINTS (Some p) = Inr () \<and> width p = Num (Integer i) \<and>
    10 \<le> i \<and> i \<le> 4000 \<and> height p = Num (Integer j) \<and> (j < 10 \<or> 4000 < j)"
  then have g: "generatePlaceholder DEFAULT_CONSTRAINTS (Some p) = generateBody p"
    by (simp add: generatePlaceholder_def)
  from a consider "provider p = Str ''placehold''" | "provider p = Str ''lorem-picsum''"
    unfolding validateParams_default by auto
  then show "generatePlaceholder DEFAULT_CONSTRAINTS (Some p) =
        Inl (ValidationError ''height'' (Val (height p))
               ''Height must be an integer between 10 and 4000'')"
  proof cases
    case 1
    show ?thesis
      unfolding g generateBody_placehold [OF 1] using a
      by (simp add: buildUrl_height_error(1) [of _ i _ j])
  next
    case 2
    show ?thesis
      unfolding g generateBody_picsum [OF 2] using a
      by (simp add: buildUrl_height_error(2) [of _ i _ j])
  qed
qed

text \<open>
  The bounds at work on requests with and without options: 1 and 10000 pass the validator,
  0 and 10001 do not; 10 and 4000 succeed through \<open>generatePlaceholder\<close>, also with options;
  9 and 4001 do not, and 10000 with options is rejected with the builder's width error.
\<close>

theorem C3_dimension_bounds_witness:
  "validateParams DEFAULT_CONSTRAINTS
     (Some \<lparr> provider = Str ''placehold'', width = Num (Integer 1), height = Num (Integer 10000),
             placeholdOptions = None, picsumOptions = None \<rparr>) = Inr () \<and>
   validateParams DEFAULT_CONSTRAINTS
     (Some \<lparr> provider = Str ''placehold'', width = Num (Integer 0), height = Undefined,
             placeholdOptions = None, picsumOptions = None \<rparr>) \<noteq> Inr () \<and>
   validateParams DEFAULT_CONSTRAINTS
     (Some \<lparr> provider = Str ''placehold'', width = Num (Integer 10001), height = Undefined,
             placeholdOptions = None, picsumOptions = None \<rparr>) \<noteq> Inr () \<and>
   (\<exists>r. generatePlaceholder DEFAULT_CONSTRAINTS
     (Some \<lparr> provider = Str ''lorem-picsum'', width = Num (Integer 10), height = Num (Integer 4000),
             placeholdOptions = None,
             picsumOptions = Some \<lparr> PicsumOptions.format = None, imageId = None, seed = None,
                                    grayscale = Some True, blur = None, random = None \<rparr> \<rparr>)
       = Inr r) \<and>
   (\<nexists>r. generatePlaceholder DEFAULT_CONSTRAINTS
     (Some \<lparr> provider = Str ''placehold'', width = Num (Integer 9), height = Undefined,
             placeholdOptions = None, picsumOptions = None \<rparr>) = Inr r) \<and>
   (\<nexists>r. generatePlaceholder DEFAULT_CONSTRAINTS
     (Some \<lparr> provider = Str ''placehold'', width = Num (Integer 300), height = Num (Integer 4001),
             placeholdOptions = None, picsumOptions = None \<rparr>) = Inr r) \<and>
   generatePlaceholder DEFAULT_CONSTRAINTS
     (Some \<lparr> provider = Str ''placehold'', width = Num (Integer 10000), height = Undefined,
             placeholdOptions = Some \<lparr> format = Some ''png'', backgroundColor = None,
                                       textColor = None, customText = None, font = None,
                                       retina = None \<rparr>,
             picsumOptions = None \<rparr>)
     = Inl (ValidationError ''width'' (Val (Num (Integer 10000)))
              ''Width must be an integer between 10 and 4000'')"
proof (intro conjI)
  show "validateParams DEFAULT_CONSTRAINTS
     (Some \<lparr> provider = Str ''placehold'', width = Num (Integer 1), height = Num (Integer 10000),
             placeholdOptions = None, picsumOptions = None \<rparr>) = Inr ()"
    using C3_dimension_bounds
      [where p = "\<lparr> provider = Str ''placehold'', width = Num (Integer 1),
             height = Num (Integer 10000), placeholdOptions = None, picsumOptions = None \<rparr>"]
    by simp
  show "validateParams DEFAULT_CONSTRAINTS
     (Some \<lparr> provider = Str ''placehold'', width = Num (Integer 0), height = Undefined,
             placeholdOptions = None, picsumOptions = None \<rparr>) \<noteq> Inr ()"
    using C3_dimension_bounds
      [where p = "\<lparr> provider = Str ''placehold'', width = Num (Integer 0), height = Undefined,
             placeholdOptions = None, picsumOptions = None \<rparr>"]
    by simp
  show "validateParams DEFAULT_CONSTRAINTS
     (Some \<lparr> provider = Str ''placehold'', width = Num (Integer 10001), height = Undefined,
             placeholdOptions = None, picsumOptions = None \<rparr>) \<noteq> Inr ()"
    using C3_dimension_bounds
      [where p = "\<lparr> provider = Str ''placehold'', width = Num (Integer 10001),
             height = Undefined, placeholdOptions = None, picsumOptions = None \<rparr>"]
    by simp
  show "\<exists>r. generatePlaceholder DEFAULT_CONSTRAINTS
     (Some \<lparr> provider = Str ''lorem-picsum'', width = Num (Integer 10), height = Num (Integer 4000),
             placeholdOptions = None,
             picsumOptions = Some \<lparr> PicsumOptions.format = None, imageId = None, seed = None,
                                    grayscale = Some True, blur = None, random = None \<rparr> \<rparr>)
       = Inr r"
    using C3_dimension_bounds
      [where p = "\<lparr> provider = Str ''lorem-picsum'', width = Num (Integer 10),
             height = Num (Integer 4000), placeholdOptions = None,
             picsumOptions = Some \<lparr> PicsumOptions.format = None, imageId = None, seed = None,
                                    grayscale = Some True, blur = None, random = None \<rparr> \<rparr>"]
    by (simp add: picsum_validateOptions_def check_picsum_format_def check_imageId_def
        check_seed_def check_blur_def check_random_def check_exclusive_def picsum_prefix_def)
  show "\<nexists>r. generatePlaceholder DEFAULT_CONSTRAINTS
     (Some \<lparr> provider = Str ''placehold'', width = Num (Integer 9), height = Undefined,
             placeholdOptions = None, picsumOptions = None \<rparr>) = Inr r"
    using C3_dimension_bounds
      [where p = "\<lparr> provider = Str ''placehold'', width = Num (Integer 9), height = Undefined,
             placeholdOptions = None, picsumOptions = None \<rparr>"]
    by simp
  show "\<nexists>r. generatePlaceholder DEFAULT_CONSTRAINTS
     (Some \<lparr> provider = Str ''placehold'', width = Num (Integer 300), height = Num (Integer 4001),
             placeholdOptions = None, picsumOptions = None \<rparr>) = Inr r"
    using C3_dimension_bounds
      [where p = "\<lparr> provider = Str ''placehold'', width = Num (Integer 300),
             height = Num (Integer 4001), placeholdOptions = None, picsumOptions = None \<rparr>"]
    by simp
  show "generatePlaceholder DEFAULT_CONSTRAINTS
     (Some \<lparr> provider = Str ''placehold'', width = Num (Integer 10000), height = Undefined,
             placeholdOptions = Some \<lparr> format = Some ''png'', backgroundColor = None,
                                       textColor = None, customText = None, font = None,
                                       retina = None \<rparr>,
             picsumOptions = None \<rparr>)
     = Inl (ValidationError ''width'' (Val (Num (Integer 10000)))
              ''Width must be an integer between 10 and 4000'')"
    using C3_dimension_bounds
      [where p = "\<lparr> provider = Str ''placehold'', width = Num (Integer 10000),
             height = Undefined,
             placeholdOptions = Some \<lparr> format = Some ''png'', backgroundColor = None,
                                       textColor = None, customText = None, font = None,
                                       retina = None \<rparr>,
             picsumOptions = None \<rparr>" and i = 10000]
    by simp
qed

section \<open>Picsum effects (C4)\<close>

text \<open>
  C4. For picsum options that pass validation (and dimensions the builder accepts), a blur
  value is an integer from 1 to 10, and \<open>buildUrl\<close> returns the base, the id or seed
  prefix, the size, the format and then the query made of the effects that are present, in
  the order \<open>grayscale\<close> (a bare flag), blur (bare \<open>blur\<close> for 1, \<open>blur=n\<close>
  otherwise), \<open>random=n\<close> (whenever random is defined, zero included), joined by
  ampersands after a question mark. (The one call that can still throw is
  \<open>encodeURIComponent\<close> on a seed with an unpaired surrogate; then there is no URL.) A
  blur value that is not an integer from 1 to 10 makes validation fail with a validation
  error, and \<open>buildUrl\<close> with it.
\<close>

theorem C4_picsum_effects:
  "(picsum_validateOptions (Some options) = Inr True \<and> validateDimensions w h = Inr () \<longrightarrow>
      (\<forall>n. blur options = Some n \<longrightarrow> (\<exists>k. n = Integer k \<and> 1 \<le> k \<and> k \<le> 10)) \<and>
      (let effects =
             (if grayscale options = Some True then [''grayscale''] else []) @
             (case blur options of
                None \<Rightarrow> []
              | Some n \<Rightarrow> if n = Integer 1 then [''blur''] else [''blur='' @ num_toString n]) @
             (case random options of
                None \<Rightarrow> []
              | Some n \<Rightarrow> [''random='' @ num_toString n])
       in picsum_buildUrl base w h (Some options) =
            (case picsum_prefix (Some options) of
               Inl e \<Rightarrow> Inl e
             | Inr prefix \<Rightarrow>
                 Inr (base @ prefix @ picsum_size w h @ picsum_format (Some options) @
                      (if effects = [] then [] else ''?'' @ join ''&'' effects))))) \<and>
   (blur options = Some n \<and> (\<nexists>k. n = Integer k \<and> 1 \<le> k \<and> k \<le> 10) \<longrightarrow>
      (\<exists>f v m. picsum_validateOptions (Some options) = Inl (ValidationError f v m)) \<and>
      (\<exists>e. picsum_buildUrl base w h (Some options) = Inl e))"
proof (intro conjI impI)
  assume a: "picsum_validateOptions (Some options) = Inr True \<and> validateDimensions w h = Inr ()"
  then have "check_blur options = None"
    by (auto simp: picsum_validateOptions_def dest: first_error_Inr)
  then show b: "\<forall>n. blur options = Some n \<longrightarrow> (\<exists>k. n = Integer k \<and> 1 \<le> k \<and> k \<le> 10)"
    by (simp add: check_blur_None)
  then have q: "picsum_queryParams (Some options) =
             (if grayscale options = Some True then [''grayscale''] else []) @
             (case blur options of
                None \<Rightarrow> []
              | Some n \<Rightarrow> if n = Integer 1 then [''blur''] else [''blur='' @ num_toString n]) @
             (case random options of
                None \<Rightarrow> []
              | Some n \<Rightarrow> [''random='' @ num_toString n])"
    by (auto simp: picsum_queryParams_def split: option.splits)
  have "picsum_buildUrl base w h (Some options) =
          (case picsum_prefix (Some options) of
             Inl e \<Rightarrow> Inl e
           | Inr prefix \<Rightarrow>
               Inr (base @ prefix @ picsum_size w h @ picsum_format (Some options) @
                    queryString (picsum_queryParams (Some options))))"
    using a by (simp add: picsum_buildUrl_def)
  then show "let effects =
             (if grayscale options = Some True then [''grayscale''] else []) @
             (case blur options of
                None \<Rightarrow> []
              | Some n \<Rightarrow> if n = Integer 1 then [''blur''] else [''blur='' @ num_toString n]) @
             (case random options of
                None \<Rightarrow> []
              | Some n \<Rightarrow> [''random='' @ num_toString n])
       in picsum_buildUrl base w h (Some options) =
            (case picsum_prefix (Some options) of
               Inl e \<Rightarrow> Inl e
             | Inr prefix \<Rightarrow>
                 Inr (base @ prefix @ picsum_size w h @ picsum_format (Some options) @
                      (if effects = [] then [] else ''?'' @ join ''&'' effects)))"
    unfolding Let_def q [symmetric] by (simp add: queryString_def split: sum.splits)
next
  assume a: "blur options = Some n \<and> (\<nexists>k. n = Integer k \<and> 1 \<le> k \<and> k \<le> 10)"
  then have "check_blur options \<noteq> None"
    by (simp add: check_blur_None)
  then obtain e where "check_blur options = Some e" by auto
  then have "\<exists>e'. first_error [check_picsum_format options, check_imageId options,
                 check_seed options, check_blur options, check_random options,
                 check_exclusive options] = Inl e'"
    by (intro first_error_fails [of e]) simp
  then obtain e' where e': "picsum_validateOptions (Some options) = Inl e'"
    by (auto simp: picsum_validateOptions_def)
  then have "Some e' \<in> set [check_picsum_format options, check_imageId options,
                      check_seed options, check_blur options, check_random options,
                      check_exclusive options]"
    by (intro first_error_Inl) (simp add: picsum_validateOptions_def)
  then have "\<exists>f v m. e' = ValidationError f v m"
    by (rule picsum_checks_ValidationError)
  with e' show "\<exists>f v m. picsum_validateOptions (Some options) = Inl (ValidationError f v m)"
    by auto
  from e' show "\<exists>e. picsum_buildUrl base w h (Some options) = Inl e"
    by (simp add: picsum_buildUrl_def split: sum.splits)
qed

theorem C4_picsum_effects_witness:
  "picsum_buildUrl ''https://picsum.photos'' (Num (Integer 200)) (Num (Integer 300))
     (Some \<lparr> PicsumOptions.format = None, imageId = None, seed = None, grayscale = Some True,
             blur = Some (Integer 1), random = Some (Integer 0) \<rparr>)
   = Inr ''https://picsum.photos/200/300?grayscale&blur&random=0'' \<and>
   picsum_buildUrl ''https://picsum.photos'' (Num (Integer 200)) (Num (Integer 300))
     (Some \<lparr> PicsumOptions.format = None, imageId = None, seed = None, grayscale = None,
             blur = Some (Integer 2), random = None \<rparr>)
   = Inr ''https://picsum.photos/200/300?blur=2'' \<and>
   (\<exists>f v m. picsum_validateOptions
      (Some \<lparr> PicsumOptions.format = None, imageId = None, seed = None, grayscale = None,
              blur = Some (Integer 0), random = None \<rparr>) = Inl (ValidationError f v m)) \<and>
   (\<exists>f v m. picsum_validateOptions
      (Some \<lparr> PicsumOptions.format = None, imageId = None, seed = None, grayscale = None,
              blur = Some (Integer 11), random = None \<rparr>) = Inl (ValidationError f v m)) \<and>
   picsum_buildUrl ''https://picsum.photos'' (Num (Integer 200)) (Num (Integer 300))
     (Some \<lparr> PicsumOptions.format = None, imageId = None, seed = None, grayscale = Some False,
             blur = Some (Integer 10),
             random = Some (Large 1000000000000000000000 ''1e+21'') \<rparr>)
   = Inr ''https://picsum.photos/200/300?blur=10&random=1e+21''"
proof (intro conjI)
  show "picsum_buildUrl ''https://picsum.photos'' (Num (Integer 200)) (Num (Integer 300))
     (Some \<lparr> PicsumOptions.format = None, imageId = None, seed = None, grayscale = Some False,
             blur = Some (Integer 10),
             random = Some (Large 1000000000000000000000 ''1e+21'') \<rparr>)
   = Inr ''https://picsum.photos/200/300?blur=10&random=1e+21''"
    using C4_picsum_effects
      [of "\<lparr> PicsumOptions.format = None, imageId = None, seed = None, grayscale = Some False,
             blur = Some (Integer 10),
             random = Some (Large 1000000000000000000000 ''1e+21'') \<rparr>"
          "Num (Integer 200)" "Num (Integer 300)" "''https://picsum.photos''"]
    by (simp add: picsum_validateOptions_def check_picsum_format_def check_imageId_def
        check_seed_def check_blur_def check_random_def check_exclusive_def validateDimensions_def
        picsum_prefix_def picsum_size_def picsum_format_def value_defs)
  show "picsum_buildUrl ''https://picsum.photos'' (Num (Integer 200)) (Num (Integer 300))
     (Some \<lparr> PicsumOptions.format = None, imageId = None, seed = None, grayscale = Some True,
             blur = Some (Integer 1), random = Some (Integer 0) \<rparr>)
   = Inr ''https://picsum.photos/200/300?grayscale&blur&random=0''"
    using C4_picsum_effects
      [of "\<lparr> PicsumOptions.format = None, imageId = None, seed = None, grayscale = Some True,
             blur = Some (Integer 1), random = Some (Integer 0) \<rparr>"
          "Num (Integer 200)" "Num (Integer 300)" "''https://picsum.photos''"]
    by (simp add: picsum_validateOptions_def check_picsum_format_def check_imageId_def
        check_seed_def check_blur_def check_random_def check_exclusive_def validateDimensions_def
        picsum_prefix_def picsum_size_def picsum_format_def value_defs)
  show "picsum_buildUrl ''https://picsum.photos'' (Num (Integer 200)) (Num (Integer 300))
     (Some \<lparr> PicsumOptions.format = None, imageId = None, seed = None, grayscale = None,
             blur = Some (Integer 2), random = None \<rparr>)
   = Inr ''https://picsum.photos/200/300?blur=2''"
    using C4_picsum_effects
      [of "\<lparr> PicsumOptions.format = None, imageId = None, seed = None, grayscale = None,
             blur = Some (Integer 2), random = None \<rparr>"
          "Num (Integer 200)" "Num (Integer 300)" "''https://picsum.photos''"]
    by (simp add: picsum_validateOptions_def check_picsum_format_def check_imageId_def
        check_seed_def check_blur_def check_random_def check_exclusive_def validateDimensions_def
        picsum_prefix_def picsum_size_def picsum_format_def value_defs)
  show "\<exists>f v m. picsum_validateOptions
      (Some \<lparr> PicsumOptions.format = None, imageId = None, seed = None, grayscale = None,
              blur = Some (Integer 0), random = None \<rparr>) = Inl (ValidationError f v m)"
    using C4_picsum_effects
      [of "\<lparr> PicsumOptions.format = None, imageId = None, seed = None, grayscale = None,
             blur = Some (Integer 0), random = None \<rparr>" _ _ _ "Integer 0"]
    by simp
  show "\<exists>f v m. picsum_validateOptions
      (Some \<lparr> PicsumOptions.format = None, imageId = None, seed = None, grayscale = None,
              blur = Some (Integer 11), random = None \<rparr>) = Inl (ValidationError f v m)"
    using C4_picsum_effects
      [of "\<lparr> PicsumOptions.format = None, imageId = None, seed = None, grayscale = None,
             blur = Some (Integer 11), random = None \<rparr>" _ _ _ "Integer 11"]
    by simp
qed

section \<open>The font parameter (C5)\<close>

text \<open>
  C5. The claim: the font value has every hyphen replaced by a plus, so
  \<open>source-sans-pro\<close> yields \<open>font=source+sans+pro\<close>. The code calls
  \<open>options.font.replace('-', '+')\<close> with a string pattern, which replaces the first
  hyphen only: the builder returns \<open>font=source+sans-pro\<close>.
\<close>

theorem C5_font_source_sans_pro:
  "placehold_buildUrl ''https://placehold.co'' (Num (Integer 600)) (Num (Integer 400))
     (Some \<lparr> format = None, backgroundColor = None, textColor = None, customText = None,
             font = Some ''source-sans-pro'', retina = None \<rparr>)
   = Inr ''https://placehold.co/600x400?font=source+sans-pro''"
  by (simp add: placehold_defs value_defs)

section \<open>The id prefix (C6)\<close>

text \<open>
  C6. The claim: every valid \<open>imageId\<close>, zero included, gives a URL that begins with
  \<open>{base}/id/{imageId}\<close>. The code accepts \<open>imageId: 0\<close> in \<open>validateOptions\<close> and then
  tests \<open>if (options?.imageId)\<close>, which is false for zero: the prefix is left out.
\<close>

theorem C6_imageId_zero:
  "picsum_buildUrl ''https://picsum.photos'' (Num (Integer 200)) (Num (Integer 300))
     (Some \<lparr> PicsumOptions.format = None, imageId = Some (Integer 0), seed = None,
             grayscale = None, blur = None, random = None \<rparr>)
   = Inr ''https://picsum.photos/200/300''"
  by (simp add: picsum_defs value_defs)

section \<open>The square default (C7)\<close>

text \<open>
  C7. The request for provider \<open>placehold\<close> with width 300 and no height yields the URL
  \<open>https://placehold.co/300\<close> and the dimensions 300 by 300. Whenever
  \<open>generatePlaceholder\<close> succeeds for provider \<open>placehold\<close>, under any constraints, the
  URL is the base, the width, the suffix \<open>x{height}\<close> exactly when a height is given and
  differs from the width, then the components of the options; the result's width is the
  given width and its height the given height, or the width when none is given. A height
  equal to the width gives the builder's result for an absent height.
\<close>

theorem C7_square_default:
  "generatePlaceholder DEFAULT_CONSTRAINTS
     (Some \<lparr> provider = Str ''placehold'', width = Num (Integer 300), height = Undefined,
             placeholdOptions = None, picsumOptions = None \<rparr>)
   = Inr \<lparr> url = ''https://placehold.co/300'', res_provider = Str ''placehold'',
           dimensions = \<lparr> dim_width = Num (Integer 300), dim_height = Num (Integer 300) \<rparr>,
           appliedPlaceholdOptions = None, appliedPicsumOptions = None \<rparr> \<and>
   (generatePlaceholder c (Some p) = Inr r \<and> provider p = Str ''placehold'' \<longrightarrow>
      url r = ''https://placehold.co/'' @ toString (width p) @
              (if height p \<noteq> Undefined \<and> height p \<noteq> width p
               then ''x'' @ toString (height p) else []) @
              placehold_retina (placeholdOptions p) @ placehold_colors (placeholdOptions p) @
              placehold_format (placeholdOptions p) @
              queryString (placehold_queryParams (placeholdOptions p)) \<and>
      dim_width (dimensions r) = width p \<and>
      dim_height (dimensions r) = (if height p = Undefined then width p else height p)) \<and>
   placehold_buildUrl base w w opts = placehold_buildUrl base w Undefined opts"
proof (intro conjI impI)
  show "generatePlaceholder DEFAULT_CONSTRAINTS
     (Some \<lparr> provider = Str ''placehold'', width = Num (Integer 300), height = Undefined,
             placeholdOptions = None, picsumOptions = None \<rparr>)
   = Inr \<lparr> url = ''https://placehold.co/300'', res_provider = Str ''placehold'',
           dimensions = \<lparr> dim_width = Num (Integer 300), dim_height = Num (Integer 300) \<rparr>,
           appliedPlaceholdOptions = None, appliedPicsumOptions = None \<rparr>"
    by (simp add: validator_defs generator_defs placehold_defs value_defs)
next
  show "placehold_buildUrl base w w opts = placehold_buildUrl base w Undefined opts"
    by (rule placehold_square)
next
  assume a: "generatePlaceholder c (Some p) = Inr r \<and> provider p = Str ''placehold''"
  then have a1: "generatePlaceholder c (Some p) = Inr r" and a2: "provider p = Str ''placehold''"
    by simp_all
  note b = generatePlaceholder_placehold(1) [OF a1 a2]
  note d = generatePlaceholder_placehold(2) [OF a1 a2]
  from b have v: "validateDimensions (width p) (height p) = Inr ()"
    by (rule placehold_buildUrl_Inr)
  from v have t: "truthy (height p) = (height p \<noteq> Undefined)"
    by (auto simp: validateDimensions_ok)
  show "dim_width (dimensions r) = width p" using d by simp
  show "dim_height (dimensions r) = (if height p = Undefined then width p else height p)"
    using d t by simp
  show "url r = ''https://placehold.co/'' @ toString (width p) @
              (if height p \<noteq> Undefined \<and> height p \<noteq> width p
               then ''x'' @ toString (height p) else []) @
              placehold_retina (placeholdOptions p) @ placehold_colors (placeholdOptions p) @
              placehold_format (placeholdOptions p) @
              queryString (placehold_queryParams (placeholdOptions p))"
    using placehold_buildUrl_Inr(2)[OF b] valid_height_truthy[OF v]
    by (simp add: placehold_size_def)
qed

theorem C7_square_default_witness:
  "generatePlaceholder DEFAULT_CONSTRAINTS
     (Some \<lparr> provider = Str ''placehold'', width = Num (Integer 300), height = Num (Integer 200),
             placeholdOptions = None, picsumOptions = None \<rparr>)
   = Inr \<lparr> url = ''https://placehold.co/300x200'', res_provider = Str ''placehold'',
           dimensions = \<lparr> dim_width = Num (Integer 300), dim_height = Num (Integer 200) \<rparr>,
           appliedPlaceholdOptions = None, appliedPicsumOptions = None \<rparr> \<and>
   url \<lparr> url = ''https://placehold.co/300x200'', res_provider = Str ''placehold'',
           dimensions = \<lparr> dim_width = Num (Integer 300), dim_height = Num (Integer 200) \<rparr>,
           appliedPlaceholdOptions = None, appliedPicsumOptions = None \<rparr>
    = ''https://placehold.co/'' @ toString (Num (Integer 300)) @ ''x'' @ toString (Num (Integer 200))"
proof -
  let ?p = "\<lparr> provider = Str ''placehold'', width = Num (Integer 300), height = Num (Integer 200),
             placeholdOptions = None, picsumOptions = None \<rparr>"
  let ?r = "\<lparr> url = ''https://placehold.co/300x200'', res_provider = Str ''placehold'',
           dimensions = \<lparr> dim_width = Num (Integer 300), dim_height = Num (Integer 200) \<rparr>,
           appliedPlaceholdOptions = None, appliedPicsumOptions = None \<rparr>"
  have g: "generatePlaceholder DEFAULT_CONSTRAINTS (Some ?p) = Inr ?r"
    by (simp add: validator_defs generator_defs placehold_defs value_defs)
  from C7_square_default [of DEFAULT_CONSTRAINTS ?p ?r] g
  show ?thesis
    by (simp add: placehold_retina_def placehold_colors_def placehold_format_def
        placehold_queryParams_def queryString_def)
qed

section \<open>Order of validation (C8)\<close>



section \<open>Empty custom text (C10)\<close>

text \<open>
  C10. \<open>validateOptions\<close> of the placehold builder does not depend on \<open>customText\<close>,
  so an empty one is accepted; \<open>buildUrl\<close> with an empty \<open>customText\<close> returns what it
  returns with none. Whenever \<open>buildUrl\<close> returns a URL (for a base URL without an equals
  sign, as the provider's is), the URL contains \<open>text=\<close> exactly when \<open>customText\<close> is a
  non-empty string, and then it is the path followed by \<open>?text=\<close>, the encoded text, and
  the font parameter if there is one.
\<close>

theorem C10_empty_customText:
  "placehold_validateOptions (Some (options\<lparr>customText := t\<rparr>)) =
     placehold_validateOptions (Some options) \<and>
   placehold_buildUrl base w h (Some (options\<lparr>customText := Some []\<rparr>)) =
     placehold_buildUrl base w h (Some (options\<lparr>customText := None\<rparr>)) \<and>
   (placehold_buildUrl base w h (Some options) = Inr u \<and> CHR ''='' \<notin> set base \<longrightarrow>
      ((\<exists>pre post. u = pre @ ''text='' @ post) \<longleftrightarrow>
         (\<exists>s. customText options = Some s \<and> s \<noteq> [])) \<and>
      (\<forall>s. customText options = Some s \<and> s \<noteq> [] \<longrightarrow>
         u = base @ placehold_size w h @ placehold_retina (Some options) @
             placehold_colors (Some options) @ placehold_format (Some options) @
             ''?text='' @ encodeText s @
             (if present (font options) \<and> str (font options) \<noteq> ''lato''
              then ''&font='' @ replace_first (CHR ''-'') ''+'' (str (font options))
              else [])))"
proof (intro conjI impI)
  show "placehold_validateOptions (Some (options\<lparr>customText := t\<rparr>)) =
     placehold_validateOptions (Some options)"
    by (simp add: placehold_validateOptions_def check_format_def check_retina_format_def
        check_colors_def check_font_def check_retina_def cong: if_cong)
  then show "placehold_buildUrl base w h (Some (options\<lparr>customText := Some []\<rparr>)) =
     placehold_buildUrl base w h (Some (options\<lparr>customText := None\<rparr>))"
    by (simp add: placehold_buildUrl_def placehold_validateOptions_def check_format_def
        check_retina_format_def check_colors_def check_font_def check_retina_def
        placehold_retina_def placehold_colors_def placehold_format_def placehold_queryParams_def
        cong: if_cong split: sum.splits)
next
  assume a: "placehold_buildUrl base w h (Some options) = Inr u \<and> CHR ''='' \<notin> set base"
  then have b: "placehold_buildUrl base w h (Some options) = Inr u"
    and nb: "CHR ''='' \<notin> set base" by simp_all
  define path where "path = base @ placehold_size w h @ placehold_retina (Some options) @
             placehold_colors (Some options) @ placehold_format (Some options)"
  define fontOn where "fontOn \<longleftrightarrow> present (font options) \<and> str (font options) \<noteq> ''lato''"
  define f where "f = replace_first (CHR ''-'') ''+'' (str (font options))"
  from placehold_buildUrl_Inr_options [OF b] obtain bb
    where v: "placehold_validateOptions (Some options) = Inr bb" by blast
  note checks = placehold_checks_pass [OF v]
  have u: "u = path @ queryString (placehold_queryParams (Some options))"
    using placehold_buildUrl_Inr(2) [OF b] by (simp add: path_def)
  have np: "CHR ''='' \<notin> set path"
    using nb size_no_eq [OF placehold_buildUrl_Inr(1) [OF b]] retina_no_eq [OF checks(5)]
      colors_no_eq [OF checks(3)] format_no_eq [OF checks(1)]
    by (simp add: path_def)
  have nf: "fontOn \<Longrightarrow> CHR ''='' \<notin> set f"
    using font_no_eq [OF checks(4)] by (simp add: fontOn_def f_def)
  show "\<forall>s. customText options = Some s \<and> s \<noteq> [] \<longrightarrow>
         u = base @ placehold_size w h @ placehold_retina (Some options) @
             placehold_colors (Some options) @ placehold_format (Some options) @
             ''?text='' @ encodeText s @
             (if present (font options) \<and> str (font options) \<noteq> ''lato''
              then ''&font='' @ replace_first (CHR ''-'') ''+'' (str (font options))
              else [])"
    using u by (auto simp: path_def placehold_queryParams_def queryString_def)
  show "(\<exists>pre post. u = pre @ ''text='' @ post) \<longleftrightarrow>
         (\<exists>s. customText options = Some s \<and> s \<noteq> [])"
  proof (cases "present (customText options)")
    case True
    then obtain s where s: "customText options = Some s" "s \<noteq> []"
      by (cases "customText options") auto
    then have "u = (path @ ''?'') @ ''text='' @
                 (encodeText s @ (if fontOn then ''&font='' @ f else []))"
      using u by (simp add: placehold_queryParams_def queryString_def fontOn_def f_def)
    then have "\<exists>pre post. u = pre @ ''text='' @ post" by blast
    with s show ?thesis by simp
  next
    case False
    then have n: "\<nexists>s. customText options = Some s \<and> s \<noteq> []"
      by (cases "customText options") auto
    have "\<nexists>pre post. u = pre @ ''text='' @ post"
    proof (cases fontOn)
      case True
      with False have "u = path @ ''?font='' @ f"
        using u by (simp add: placehold_queryParams_def queryString_def fontOn_def f_def)
      then show ?thesis using no_text_in_font_query [OF np nf [OF True]] by simp
    next
      case nofont: False
      with False have "u = path"
        using u by (simp add: placehold_queryParams_def queryString_def fontOn_def)
      then show ?thesis using no_text_without_eq [OF np] by simp
    qed
    with n show ?thesis by simp
  qed
qed

text \<open>
  At 600 by 400: an empty \<open>customText\<close> is accepted and gives the URL without a query, in
  which \<open>text=\<close> does not occur; \<open>Hello World\<close> gives \<open>?text=Hello+World\<close>.
\<close>

theorem C10_empty_customText_witness:
  "placehold_validateOptions
     (Some \<lparr> format = None, backgroundColor = None, textColor = None, customText = Some [],
             font = None, retina = None \<rparr>) = Inr True \<and>
   placehold_buildUrl ''https://placehold.co'' (Num (Integer 600)) (Num (Integer 400))
     (Some \<lparr> format = None, backgroundColor = None, textColor = None, customText = Some [],
             font = None, retina = None \<rparr>) = Inr ''https://placehold.co/600x400'' \<and>
   (\<nexists>pre post. ''https://placehold.co/600x400'' = pre @ ''text='' @ post) \<and>
   placehold_buildUrl ''https://placehold.co'' (Num (Integer 600)) (Num (Integer 400))
     (Some \<lparr> format = None, backgroundColor = None, textColor = None,
             customText = Some ''Hello World'', font = Some ''roboto'', retina = None \<rparr>)
     = Inr ''https://placehold.co/600x400?text=Hello+World&font=roboto'' \<and>
   (\<exists>pre post. ''https://placehold.co/600x400?text=Hello+World&font=roboto'' =
      pre @ ''text='' @ post)"
proof -
  let ?none = "\<lparr> format = None, backgroundColor = None, textColor = None, customText = None,
                 font = None, retina = None \<rparr>"
  let ?empty = "\<lparr> format = None, backgroundColor = None, textColor = None,
                  customText = Some [], font = None, retina = None \<rparr>"
  let ?hello = "\<lparr> format = None, backgroundColor = None, textColor = None,
                  customText = Some ''Hello World'', font = Some ''roboto'', retina = None \<rparr>"
  let ?base = "''https://placehold.co''"
  have v: "placehold_validateOptions (Some ?none) = Inr True"
    by (simp add: placehold_defs)
  have n: "placehold_buildUrl ?base (Num (Integer 600)) (Num (Integer 400))
             (Some (?none\<lparr>customText := None\<rparr>)) = Inr ''https://placehold.co/600x400''"
    by (simp add: placehold_defs value_defs)
  have h: "placehold_buildUrl ?base (Num (Integer 600)) (Num (Integer 400)) (Some ?hello)
             = Inr ''https://placehold.co/600x400?text=Hello+World&font=roboto''"
    by (simp add: placehold_defs value_defs)
  have b: "CHR ''='' \<notin> set ?base" by simp
  from C10_empty_customText
         [where options = ?none and t = "Some []" and base = ?base
            and w = "Num (Integer 600)" and h = "Num (Integer 400)"] v n
  have e: "placehold_validateOptions (Some ?empty) = Inr True"
    and u: "placehold_buildUrl ?base (Num (Integer 600)) (Num (Integer 400)) (Some ?empty)
              = Inr ''https://placehold.co/600x400''"
    by simp_all
  from C10_empty_customText
         [where options = ?empty and base = ?base and w = "Num (Integer 600)"
            and h = "Num (Integer 400)" and u = "''https://placehold.co/600x400''"] u b
  have absent: "\<nexists>pre post. ''https://placehold.co/600x400'' = pre @ ''text='' @ post"
    by simp
  from C10_empty_customText
         [where options = ?hello and base = ?base and w = "Num (Integer 600)"
            and h = "Num (Integer 400)"
            and u = "''https://placehold.co/600x400?text=Hello+World&font=roboto''"] h b
  have there: "\<exists>pre post. ''https://placehold.co/600x400?text=Hello+World&font=roboto'' =
      pre @ ''text='' @ post"
    by simp
  from e u absent h there show ?thesis by (intro conjI)
qed

end
